theory Spec2Isabelle
  imports Complex_Main
begin

section \<open>pyMission: segment assembly and multipoint aggregation\<close>

text \<open>
  A shallow embedding of \<^verbatim>\<open>pyMission/segment.py\<close> (class \<^verbatim>\<open>MissionSegment\<close>) and
  \<^verbatim>\<open>pyMission/multipoint.py\<close> (the three-leg mission script).

  Python floats are modelled as \<open>real\<close>, Python ints as \<open>int\<close>, lists and numpy
  vectors as lists, a matrix as the list of its rows, a dict as a map. Every
  exception the modelled code can raise is a value of \<open>py_error\<close>; a function that can
  raise returns \<open>py_error + 'a\<close>, with \<open>Inl\<close> the exception.
\<close>

subsection \<open>Exceptions and sequencing\<close>

datatype py_error =
    IOError
  | KeyError string
  | TypeError
  | ValueError
  | IndexError
  | AttributeError

definition bind_err :: "py_error + 'a \<Rightarrow> ('a \<Rightarrow> py_error + 'b) \<Rightarrow> py_error + 'b" where
  "bind_err m f = (case m of Inl e \<Rightarrow> Inl e | Inr x \<Rightarrow> f x)"

text \<open>\<^verbatim>\<open>d[k]\<close> on a dict: \<^verbatim>\<open>KeyError\<close> when the key is absent.\<close>

definition getitem :: "(string \<rightharpoonup> 'v) \<Rightarrow> string \<Rightarrow> py_error + 'v" where
  "getitem d k = (case d k of None \<Rightarrow> Inl (KeyError k) | Some v \<Rightarrow> Inr v)"

text \<open>
  \<^verbatim>\<open>d[k]\<close> where \<^verbatim>\<open>d\<close> may be \<^verbatim>\<open>None\<close> (the default of the keyword argument
  \<^verbatim>\<open>aero_surr\<close>): subscripting \<^verbatim>\<open>None\<close> is a \<^verbatim>\<open>TypeError\<close>.
\<close>

definition getitem_opt :: "(string \<rightharpoonup> 'v) option \<Rightarrow> string \<Rightarrow> py_error + 'v" where
  "getitem_opt d k = (case d of None \<Rightarrow> Inl TypeError | Some m \<Rightarrow> getitem m k)"

text \<open>
  \<^verbatim>\<open>execfile(params_file, data)\<close>: the files that can be executed are given by
  \<open>fs\<close>, which maps a file name to the names the file binds at top level (each
  bound to a mapping), or to the exception that reading or running it raises.
  \<^verbatim>\<open>execfile(None, data)\<close> (the default \<^verbatim>\<open>params_file=None\<close>) is a \<^verbatim>\<open>TypeError\<close>.
\<close>

type_synonym params_dict = "string \<rightharpoonup> real"
type_synonym file_system = "string \<Rightarrow> py_error + (string \<rightharpoonup> params_dict)"

definition execfile :: "file_system \<Rightarrow> string option \<Rightarrow> py_error + (string \<rightharpoonup> params_dict)" where
  "execfile fs params_file = (case params_file of None \<Rightarrow> Inl TypeError | Some f \<Rightarrow> fs f)"

subsection \<open>numpy.linspace\<close>

text \<open>
  \<^verbatim>\<open>np.linspace(start, stop, num)\<close> with the default \<^verbatim>\<open>endpoint=True\<close>, following
  numpy's implementation step by step: a negative \<^verbatim>\<open>num\<close> is a \<^verbatim>\<open>ValueError\<close>;
  \<^verbatim>\<open>div = num - 1\<close>; \<^verbatim>\<open>y = arange(0, num)\<close> is scaled by \<^verbatim>\<open>step = delta / div\<close>
  when \<^verbatim>\<open>div > 0\<close> and by \<^verbatim>\<open>delta\<close> otherwise, shifted by \<^verbatim>\<open>start\<close>, and its last
  entry is overwritten with \<^verbatim>\<open>stop\<close> when \<^verbatim>\<open>num > 1\<close>.
\<close>

definition linspace :: "real \<Rightarrow> real \<Rightarrow> int \<Rightarrow> py_error + real list" where
  "linspace start stop num =
     (if num < 0 then Inl ValueError
      else
        let n = nat num;
            dv = num - 1;
            delta = stop - start;
            y0 = map real [0..<n];
            y1 = (if dv > 0 then map (\<lambda>t. t * (delta / real_of_int dv)) y0
                  else map (\<lambda>t. t * delta) y0);
            y2 = map (\<lambda>t. t + start) y1;
            y3 = (if num > 1 then y2[n - 1 := stop] else y2)
        in Inr y3)"

subsection \<open>The assembly, its drivers and the segment\<close>

text \<open>
  \<^verbatim>\<open>gradient_options\<close> of a driver. Only the options the source assigns are fields;
  a tolerance the source leaves at the library's default is \<open>None\<close>.
\<close>

record gradient_options =
  lin_solver :: string
  maxiter :: nat
  g_iprint :: int
  g_atol :: "real option"
  g_rtol :: "real option"

text \<open>
  A driver owns a workflow (the ordered list of step names given to
  \<^verbatim>\<open>workflow.add\<close>), its gradient options and the \<^verbatim>\<open>system_type\<close> flag that
  \<^verbatim>\<open>multipoint.py\<close> sets. \<^verbatim>\<open>NewtonSolver\<close> is a driver with tolerances, an iteration
  cap, and the registered parameters and constraints.
\<close>

record driver =
  workflow :: "string list"
  grad_options :: gradient_options
  system_type :: "string option"

record newton_solver = driver +
  atol :: real
  rtol :: real
  max_iteration :: nat
  iprint :: int
  parameters :: "string list"
  constraints :: "string list"

text \<open>
  The state an \<^verbatim>\<open>Assembly\<close> accumulates through its API: the components added (name
  and class), the boundary variables, the connections in the order made, and the
  passthroughs (boundary name, inner path) in the order created.
\<close>

record assembly =
  comps :: "(string \<times> string) list"
  boundary_vars :: "string list"
  conns :: "(string \<times> string) list"
  passthroughs :: "(string \<times> string) list"

text \<open>
  \<^verbatim>\<open>class MissionSegment(Assembly)\<close>. The surrogate tables are opaque to the
  segment, so their type is a parameter. \<open>port_vals\<close> holds the values assigned to
  boundary ports (\<^verbatim>\<open>h_pt\<close>, \<^verbatim>\<open>M_pt\<close>) from outside or by \<^verbatim>\<open>set_init_h_pt\<close>.
\<close>

record 'a segment = assembly +
  num_elem :: int
  num_pt :: int
  x_pts :: "real list option"
  S :: real
  ac_w :: real
  thrust_sl :: real
  SFCSL :: real
  AR :: real
  oswald :: real
  wt_pax :: real
  jac_h :: "real list list option"
  jac_gamma :: "real list list option"
  CL_arr :: 'a
  CD_arr :: 'a
  CM_arr :: 'a
  num :: 'a
  SysXBspline_x_pt :: "real list option"
  SysSpeed_v_specified :: bool
  SysFuelWeight_fuel_w :: "real list"
  seg_driver :: driver
  coupled_solver :: newton_solver
  port_vals :: "string \<rightharpoonup> real list"

subsection \<open>The assembly API\<close>

text \<open>
  The calls \<^verbatim>\<open>MissionSegment.__init__\<close> makes on itself, its driver and its solver.
  Each records its argument; \<^verbatim>\<open>create_passthrough(path)\<close> names the boundary port
  after the last component of the path.
\<close>

datatype stmt =
    Add string string
  | AddVar string
  | Connect string string
  | CreatePassthrough string
  | SolverAddParameter string
  | SolverAddConstraint string
  | DriverWorkflowAdd "string list"
  | SolverWorkflowAdd "string list"

text \<open>The part of a dotted path after its last dot (the whole path if it has none).\<close>

definition var_name :: "string \<Rightarrow> string" where
  "var_name path = rev (takeWhile (\<lambda>c. c \<noteq> CHR ''.'') (rev path))"

text \<open>The part of a dotted path before its first dot.\<close>

definition comp_name :: "string \<Rightarrow> string" where
  "comp_name path = takeWhile (\<lambda>c. c \<noteq> CHR ''.'') path"

fun exec_stmt :: "stmt \<Rightarrow> 'a segment \<Rightarrow> 'a segment" where
  "exec_stmt (Add name cls) s = s\<lparr>comps := comps s @ [(name, cls)]\<rparr>"
| "exec_stmt (AddVar name) s = s\<lparr>boundary_vars := boundary_vars s @ [name]\<rparr>"
| "exec_stmt (Connect src dst) s = s\<lparr>conns := conns s @ [(src, dst)]\<rparr>"
| "exec_stmt (CreatePassthrough path) s =
     s\<lparr>boundary_vars := boundary_vars s @ [var_name path],
       passthroughs := passthroughs s @ [(var_name path, path)]\<rparr>"
| "exec_stmt (SolverAddParameter p) s =
     s\<lparr>coupled_solver := (coupled_solver s)\<lparr>parameters := parameters (coupled_solver s) @ [p]\<rparr>\<rparr>"
| "exec_stmt (SolverAddConstraint c) s =
     s\<lparr>coupled_solver := (coupled_solver s)\<lparr>constraints := constraints (coupled_solver s) @ [c]\<rparr>\<rparr>"
| "exec_stmt (DriverWorkflowAdd names) s =
     s\<lparr>seg_driver := (seg_driver s)\<lparr>workflow := workflow (seg_driver s) @ names\<rparr>\<rparr>"
| "exec_stmt (SolverWorkflowAdd names) s =
     s\<lparr>coupled_solver := (coupled_solver s)\<lparr>workflow := workflow (coupled_solver s) @ names\<rparr>\<rparr>"

definition exec_stmts :: "stmt list \<Rightarrow> 'a segment \<Rightarrow> 'a segment" where
  "exec_stmts body s = fold exec_stmt body s"

subsection \<open>MissionSegment.__init__\<close>

text \<open>
  The API calls of the constructor, in source order (segment.py, lines 93 to 281).
  A component is added under its name with its class; the keyword arguments of the
  component constructors are fields of the segment and are not repeated here.
\<close>

definition MissionSegment_body :: "stmt list" where
  "MissionSegment_body =
    [AddVar ''pax_flt'',
     Add ''SysXBspline'' ''SysXBspline'',
     Add ''SysHBspline'' ''SysHBspline'',
     Add ''SysMVBspline'' ''SysMVBspline'',
     Add ''SysGammaBspline'' ''SysGammaBspline'',
     Add ''SysSFC'' ''SysSFC'',
     Add ''SysTemp'' ''SysTemp'',
     Add ''SysRho'' ''SysRho'',
     Add ''SysSpeed'' ''SysSpeed'',
     Connect ''SysHBspline.h'' ''SysSFC.h'',
     Connect ''SysHBspline.h'' ''SysTemp.h'',
     Connect ''SysHBspline.h'' ''SysRho.h'',
     Connect ''SysTemp.temp'' ''SysRho.temp'',
     Connect ''SysTemp.temp'' ''SysSpeed.temp'',
     Connect ''SysMVBspline.M'' ''SysSpeed.M'',
     Connect ''SysMVBspline.v_spline'' ''SysSpeed.v_spline'',
     Add ''SysCLTar'' ''SysCLTar'',
     Connect ''SysRho.rho'' ''SysCLTar.rho'',
     Connect ''SysGammaBspline.Gamma'' ''SysCLTar.Gamma'',
     Connect ''SysSpeed.v'' ''SysCLTar.v'',
     Add ''SysTripanCLSurrogate'' ''SysTripanCLSurrogate'',
     Connect ''SysMVBspline.M'' ''SysTripanCLSurrogate.M'',
     Connect ''SysHBspline.h'' ''SysTripanCLSurrogate.h'',
     Connect ''SysCLTar.CL'' ''SysTripanCLSurrogate.CL_tar'',
     Add ''SysTripanCMSurrogate'' ''SysTripanCMSurrogate'',
     Connect ''SysMVBspline.M'' ''SysTripanCMSurrogate.M'',
     Connect ''SysHBspline.h'' ''SysTripanCMSurrogate.h'',
     Connect ''SysTripanCLSurrogate.alpha'' ''SysTripanCMSurrogate.alpha'',
     Add ''SysTripanCDSurrogate'' ''SysTripanCDSurrogate'',
     Connect ''SysMVBspline.M'' ''SysTripanCDSurrogate.M'',
     Connect ''SysHBspline.h'' ''SysTripanCDSurrogate.h'',
     Connect ''SysTripanCMSurrogate.eta'' ''SysTripanCDSurrogate.eta'',
     Connect ''SysTripanCLSurrogate.alpha'' ''SysTripanCDSurrogate.alpha'',
     Add ''SysCTTar'' ''SysCTTar'',
     Connect ''SysGammaBspline.Gamma'' ''SysCTTar.Gamma'',
     Connect ''SysTripanCDSurrogate.CD'' ''SysCTTar.CD'',
     Connect ''SysTripanCLSurrogate.alpha'' ''SysCTTar.alpha'',
     Connect ''SysRho.rho'' ''SysCTTar.rho'',
     Connect ''SysSpeed.v'' ''SysCTTar.v'',
     Add ''SysFuelWeight'' ''SysFuelWeight'',
     Connect ''SysSpeed.v'' ''SysFuelWeight.v'',
     Connect ''SysGammaBspline.Gamma'' ''SysFuelWeight.Gamma'',
     Connect ''SysCTTar.CT_tar'' ''SysFuelWeight.CT_tar'',
     Connect ''SysXBspline.x'' ''SysFuelWeight.x'',
     Connect ''SysSFC.SFC'' ''SysFuelWeight.SFC'',
     Connect ''SysRho.rho'' ''SysFuelWeight.rho'',
     Add ''coupled_solver'' ''NewtonSolver'',
     Connect ''SysFuelWeight.fuel_w'' ''SysCLTar.fuel_w'',
     Connect ''SysCTTar.CT_tar'' ''SysCLTar.CT_tar'',
     Connect ''SysTripanCLSurrogate.alpha'' ''SysCLTar.alpha'',
     Connect ''SysTripanCMSurrogate.eta'' ''SysTripanCLSurrogate.eta'',
     Connect ''SysFuelWeight.fuel_w'' ''SysCTTar.fuel_w'',
     SolverAddParameter ''SysTripanCLSurrogate.alpha'',
     SolverAddConstraint ''SysTripanCLSurrogate.alpha_res = 0'',
     SolverAddParameter ''SysTripanCMSurrogate.eta'',
     SolverAddConstraint ''SysTripanCMSurrogate.CM = 0'',
     Add ''SysTau'' ''SysTau'',
     Add ''SysTmin'' ''SysTmin'',
     Add ''SysTmax'' ''SysTmax'',
     Add ''SysFuelObj'' ''SysFuelObj'',
     Add ''SysBlockTime'' ''SysBlockTime'',
     Connect ''SysRho.rho'' ''SysTau.rho'',
     Connect ''SysCTTar.CT_tar'' ''SysTau.CT_tar'',
     Connect ''SysHBspline.h'' ''SysTau.h'',
     Connect ''SysSpeed.v'' ''SysTau.v'',
     Connect ''SysTau.tau'' ''SysTmin.tau'',
     Connect ''SysTau.tau'' ''SysTmax.tau'',
     Connect ''SysFuelWeight.fuel_w'' ''SysFuelObj.fuel_w'',
     Connect ''SysXBspline.x'' ''SysBlockTime.x'',
     Connect ''SysSpeed.v'' ''SysBlockTime.v'',
     Connect ''SysGammaBspline.Gamma'' ''SysBlockTime.Gamma'',
     CreatePassthrough ''SysHBspline.h_pt'',
     Connect ''h_pt'' ''SysGammaBspline.h_pt'',
     CreatePassthrough ''SysMVBspline.v_pt'',
     CreatePassthrough ''SysMVBspline.M_pt'',
     CreatePassthrough ''SysTmin.Tmin'',
     CreatePassthrough ''SysTmax.Tmax'',
     CreatePassthrough ''SysFuelObj.fuelburn'',
     CreatePassthrough ''SysBlockTime.time'',
     CreatePassthrough ''SysHBspline.h'',
     CreatePassthrough ''SysGammaBspline.Gamma'',
     Connect ''pax_flt'' ''SysCLTar.pax_flt'',
     Connect ''pax_flt'' ''SysCTTar.pax_flt'',
     DriverWorkflowAdd
       [''SysXBspline'', ''SysHBspline'', ''SysMVBspline'', ''SysGammaBspline'',
        ''SysSFC'', ''SysTemp'', ''SysRho'', ''SysSpeed'',
        ''coupled_solver'',
        ''SysTau'', ''SysTmin'', ''SysTmax'', ''SysFuelObj'', ''SysBlockTime''],
     SolverWorkflowAdd
       [''SysCLTar'', ''SysTripanCLSurrogate'', ''SysTripanCMSurrogate'',
        ''SysTripanCDSurrogate'', ''SysCTTar'', ''SysFuelWeight'']]"

text \<open>
  The segment before any API call: the attributes the constructor assigns (lines 65
  to 88, 100, 124, 184) and the driver settings (lines 287 to 300), with empty
  component, connection, passthrough, workflow, parameter and constraint lists.
\<close>

definition segment0 ::
  "int \<Rightarrow> int \<Rightarrow> real list option \<Rightarrow> real \<Rightarrow> real \<Rightarrow> real \<Rightarrow> real \<Rightarrow> real \<Rightarrow> real \<Rightarrow>
   real list list option \<Rightarrow> real list list option \<Rightarrow> 'a \<Rightarrow> 'a \<Rightarrow> 'a \<Rightarrow> 'a \<Rightarrow> real list \<Rightarrow> 'a segment" where
  "segment0 n_elem n_cp xs pS pac_w pthrust_sl pSFCSL pAR pe jh jg cl cd cm nums fuel_w0 =
     \<lparr>comps = [], boundary_vars = [], conns = [], passthroughs = [],
      num_elem = n_elem,
      num_pt = n_cp,
      x_pts = xs,
      S = pS,
      ac_w = pac_w,
      thrust_sl = pthrust_sl,
      SFCSL = pSFCSL,
      AR = pAR,
      oswald = pe,
      wt_pax = 84 * (981 / 100),
      jac_h = jh,
      jac_gamma = jg,
      CL_arr = cl,
      CD_arr = cd,
      CM_arr = cm,
      num = nums,
      SysXBspline_x_pt = xs,
      SysSpeed_v_specified = False,
      SysFuelWeight_fuel_w = fuel_w0,
      seg_driver =
        \<lparr>workflow = [],
         grad_options = \<lparr>lin_solver = ''linear_gs'', maxiter = 1, g_iprint = 1,
                          g_atol = None, g_rtol = None\<rparr>,
         system_type = None\<rparr>,
      coupled_solver =
        \<lparr>workflow = [],
         grad_options = \<lparr>lin_solver = ''petsc_ksp'', maxiter = 50, g_iprint = 1,
                          g_atol = Some (1 / 10 ^ 20), g_rtol = Some (1 / 10 ^ 20)\<rparr>,
         system_type = None,
         atol = 1 / 10 ^ 9,
         rtol = 1 / 10 ^ 9,
         max_iteration = 15,
         iprint = 2,
         parameters = [],
         constraints = []\<rparr>,
      port_vals = Map.empty\<rparr>"

text \<open>
  The constructor: the parameter file is executed and the six keys are read (lines
  69 to 77), the surrogate tables are read (lines 85 to 88), the initial
  fuel-weight profile is computed (line 184) and the API calls are made. The
  result is the first exception raised, or the segment. The component classes and
  the assembly API belong to modules that are not among the sources; their
  constructors and calls are taken not to raise.
\<close>

definition MissionSegment_init ::
  "file_system\<Rightarrow> int \<Rightarrow> int \<Rightarrow> real list option \<Rightarrow> string option \<Rightarrow> (string \<rightharpoonup> 'a) option \<Rightarrow>
   real list list option \<Rightarrow> real list list option \<Rightarrow> py_error + 'a segment" where
  "MissionSegment_init fs n_elem n_cp xs params_file aero_surr jh jg =
     bind_err (execfile fs params_file) (\<lambda>data.
     bind_err (getitem data ''params'') (\<lambda>params.
     bind_err (getitem params ''S'') (\<lambda>pS.
     bind_err (getitem params ''ac_w'') (\<lambda>pac_w.
     bind_err (getitem params ''thrust_sl'') (\<lambda>pthrust_sl.
     bind_err (getitem params ''SFCSL'') (\<lambda>pSFCSL.
     bind_err (getitem params ''AR'') (\<lambda>pAR.
     bind_err (getitem params ''e'') (\<lambda>pe.
     bind_err (getitem_opt aero_surr ''CL'') (\<lambda>cl.
     bind_err (getitem_opt aero_surr ''CD'') (\<lambda>cd.
     bind_err (getitem_opt aero_surr ''CM'') (\<lambda>cm.
     bind_err (getitem_opt aero_surr ''nums'') (\<lambda>nums.
     bind_err (linspace 1 0 (n_elem + 1)) (\<lambda>fuel_w0.
       Inr (exec_stmts MissionSegment_body
              (segment0 n_elem n_cp xs pS pac_w pthrust_sl pSFCSL pAR pe
                 jh jg cl cd cm nums fuel_w0)))))))))))))))"

text \<open>The keys of \<^verbatim>\<open>params\<close> the constructor reads (lines 72 to 77), in order.\<close>

definition required_keys :: "string list" where
  "required_keys = [''S'', ''ac_w'', ''thrust_sl'', ''SFCSL'', ''AR'', ''e'']"

subsection \<open>MissionSegment.set_init_h_pt\<close>

text \<open>
  Matrices are lists of rows; the number of columns is the length of the first row
  (a numpy array is rectangular, and a matrix without rows is taken to have no
  columns). \<open>mat_T\<close> is \<^verbatim>\<open>A.T\<close>; \<open>dot_mm\<close> and \<open>dot_mv\<close> are \<^verbatim>\<open>.dot\<close> with a
  matrix and with a vector, a \<^verbatim>\<open>ValueError\<close> when the inner dimensions differ.
\<close>

definition ncols :: "real list list \<Rightarrow> nat" where
  "ncols A = (case A of [] \<Rightarrow> 0 | row # _ \<Rightarrow> length row)"

definition col :: "real list list \<Rightarrow> nat \<Rightarrow> real list" where
  "col A j = map (\<lambda>row. row ! j) A"

definition mat_T :: "real list list \<Rightarrow> real list list" where
  "mat_T A = map (col A) [0..<ncols A]"

definition dot_vv :: "real list \<Rightarrow> real list \<Rightarrow> real" where
  "dot_vv u v = sum_list (map2 (*) u v)"

definition dot_mv :: "real list list \<Rightarrow> real list \<Rightarrow> py_error + real list" where
  "dot_mv A v =
     (if ncols A = length v then Inr (map (\<lambda>row. dot_vv row v) A) else Inl ValueError)"

definition dot_mm :: "real list list \<Rightarrow> real list list \<Rightarrow> py_error + real list list" where
  "dot_mm A B =
     (if ncols A = length B
      then Inr (map (\<lambda>row. map (\<lambda>j. dot_vv row (col B j)) [0..<ncols B]) A)
      else Inl ValueError)"

text \<open>
  \<^verbatim>\<open>scipy.sparse.linalg.gmres(ATA, ATb)\<close> returns the pair of the iterate it stopped
  at and an exit code; the solver is a parameter of the model. \<^verbatim>\<open>self.jac_h\<close> may
  be \<^verbatim>\<open>None\<close> (the constructor's default), and \<^verbatim>\<open>None.T\<close> is an
  \<^verbatim>\<open>AttributeError\<close>.
\<close>

type_synonym linear_solver = "real list list \<Rightarrow> real list \<Rightarrow> real list \<times> int"

definition set_init_h_pt :: "linear_solver \<Rightarrow> 'a segment \<Rightarrow> real list \<Rightarrow> py_error + 'a segment" where
  "set_init_h_pt gmres self h_init_pt =
     bind_err (case jac_h self of None \<Rightarrow> Inl AttributeError | Some A \<Rightarrow> Inr A) (\<lambda>A.
       let b = h_init_pt in
       bind_err (dot_mm (mat_T A) A) (\<lambda>ATA.
       bind_err (dot_mv (mat_T A) b) (\<lambda>ATb.
         Inr (self\<lparr>port_vals := (port_vals self)(''h_pt'' \<mapsto> fst (gmres ATA ATb))\<rparr>))))"

text \<open>
  The normal equations in the words of the specification: for an operator \<open>A\<close> with
  \<open>m\<close> columns and a target \<open>b\<close>, the matrix \<open>A\<^sup>tA\<close> has the entry
  \<open>\<Sum>k. A[k][i] * A[k][j]\<close> at \<open>(i, j)\<close>, and the right-hand side \<open>A\<^sup>tb\<close> has the entry
  \<open>\<Sum>k. A[k][i] * b[k]\<close> at \<open>i\<close>.
\<close>

definition normal_matrix :: "real list list \<Rightarrow> nat \<Rightarrow> real list list" where
  "normal_matrix A m =
     map (\<lambda>i. map (\<lambda>j. \<Sum>k\<leftarrow>[0..<length A]. A ! k ! i * A ! k ! j) [0..<m]) [0..<m]"

definition normal_rhs :: "real list list \<Rightarrow> nat \<Rightarrow> real list \<Rightarrow> real list" where
  "normal_rhs A m b = map (\<lambda>i. \<Sum>k\<leftarrow>[0..<length A]. A ! k ! i * b ! k) [0..<m]"

text \<open>A matrix with \<open>r\<close> rows, each of length \<open>c\<close>.\<close>

definition has_shape :: "real list list \<Rightarrow> nat \<Rightarrow> nat \<Rightarrow> bool" where
  "has_shape A r c \<longleftrightarrow> length A = r \<and> list_all (\<lambda>row. length row = c) A"

subsection \<open>The Newton solver of the coupled group\<close>

text \<open>
  Modelled from the spec: the outer Newton iteration of section 4.3. The class
  \<^verbatim>\<open>NewtonSolver\<close> that \<^verbatim>\<open>segment.py\<close> instantiates and configures belongs to the
  framework and is not among the sources. \<open>R\<close> is the residual norm obtained by
  running the group's workflow at a state (step 1), \<open>update\<close> the Newton update
  of the state (steps 3 and 4); both are parameters. The norm is within tolerance
  (step 2) when it meets the absolute tolerance and, relative to the initial norm,
  the relative one. The iteration stops after \<open>max_iteration\<close> updates whether or
  not converged, and reports the current norm (step 5).
\<close>

record 'st newton_report =
  final_state :: 'st
  res_norm :: real
  iterations :: nat
  converged :: bool

definition within_tol :: "real \<Rightarrow> real \<Rightarrow> real \<Rightarrow> real \<Rightarrow> bool" where
  "within_tol a r norm0 nrm \<longleftrightarrow> nrm \<le> a \<and> nrm \<le> r * norm0"

fun newton_iterate ::
  "('st \<Rightarrow> real) \<Rightarrow> ('st \<Rightarrow> 'st) \<Rightarrow> real \<Rightarrow> real \<Rightarrow> real \<Rightarrow> nat \<Rightarrow> nat \<Rightarrow> 'st \<Rightarrow> 'st newton_report" where
  "newton_iterate R update a r norm0 0 k st =
     \<lparr>final_state = st, res_norm = R st, iterations = k,
      converged = within_tol a r norm0 (R st)\<rparr>"
| "newton_iterate R update a r norm0 (Suc budget) k st =
     (if within_tol a r norm0 (R st)
      then \<lparr>final_state = st, res_norm = R st, iterations = k, converged = True\<rparr>
      else newton_iterate R update a r norm0 budget (Suc k) (update st))"

definition run_coupled_solver ::
  "newton_solver \<Rightarrow> ('st \<Rightarrow> real) \<Rightarrow> ('st \<Rightarrow> 'st) \<Rightarrow> 'st \<Rightarrow> 'st newton_report" where
  "run_coupled_solver solver R update st0 =
     newton_iterate R update (atol solver) (rtol solver) (R st0) (max_iteration solver) 0 st0"

subsection \<open>Running a workflow\<close>

text \<open>
  Modelled from the spec: the workflow executor of section 4.2, which belongs to
  the framework and is not among the sources. One invocation takes the steps of
  the workflow in the order the assembler supplied; what a step computes is the
  parameter \<open>compute\<close> (a nested solver is one step like any other). The trace
  records the steps in the order they ran.
\<close>

fun run_workflow ::
  "(string \<Rightarrow> 'st \<Rightarrow> 'st) \<Rightarrow> string list \<Rightarrow> 'st \<times> string list \<Rightarrow> 'st \<times> string list" where
  "run_workflow compute [] (st, trace) = (st, trace)"
| "run_workflow compute (c # cs) (st, trace) =
     run_workflow compute cs (compute c st, trace @ [c])"

subsection \<open>multipoint.py: the three-leg mission\<close>

text \<open>
  The top assembly \<^verbatim>\<open>model = set_as_top(Assembly())\<close>: the segments added to it,
  the connections made between its children, and the workflow of its driver.
\<close>

record 'a mission =
  segs :: "(string \<times> 'a segment) list"
  mission_conns :: "(string \<times> string) list"
  mission_workflow :: "string list"

text \<open>\<^verbatim>\<open>num_elem = 50\<close> and \<^verbatim>\<open>num_cp = 10\<close>, the same for each segment.\<close>

definition mp_num_elem :: int where
  "mp_num_elem = 50"

definition mp_num_cp :: int where
  "mp_num_cp = 10"

text \<open>
  \<^verbatim>\<open>setup_MBI(num_elem+1, num_cp, x_init)\<close> returns the two spline operators and
  \<^verbatim>\<open>setup_surrogate('crm_surr')\<close> the four surrogate tables; both belong to modules
  that are not among the sources and are parameters of the model.
\<close>

type_synonym mbi = "int \<Rightarrow> int \<Rightarrow> real list \<Rightarrow> real list list \<times> real list list"

definition make_aero_surr :: "'a \<times> 'a \<times> 'a \<times> 'a \<Rightarrow> (string \<rightharpoonup> 'a)" where
  "make_aero_surr t =
     (case t of (cl, cd, cm, nums) \<Rightarrow>
        [''CL'' \<mapsto> cl, ''CD'' \<mapsto> cd, ''CM'' \<mapsto> cm, ''nums'' \<mapsto> nums])"

text \<open>
  One mission segment block of the script (lines 30 to 71, repeated at 77 to 118
  and 124 to 165 with another range and name): the initial profiles, the spline
  operators, the segment, its initial control points and design parameters, and
  the \<^verbatim>\<open>system_type\<close> flags. \<open>x_range_nm\<close> is the range in nautical miles.
\<close>

definition build_segment ::
  "file_system \<Rightarrow> mbi \<Rightarrow> linear_solver \<Rightarrow> (string \<rightharpoonup> 'a) \<Rightarrow> real \<Rightarrow> py_error + 'a segment" where
  "build_segment fs setup_MBI gmres aero_surr x_range_nm =
     bind_err (linspace 0 1 (mp_num_elem + 1)) (\<lambda>ls.
       let altitude = map (\<lambda>t. 10 * sin (pi * t)) ls;
           x_range = x_range_nm * 1.852
       in
     bind_err (linspace 0 1 mp_num_cp) (\<lambda>lc.
       let x_init = map (\<lambda>t. x_range * 10 ^ 3 * (1 - cos (t * pi)) / 2 / 10 ^ 6) lc;
           M_init = map (\<lambda>t. t * 0.82) (replicate (nat mp_num_cp) 1);
           h_init = map (\<lambda>x. 10 * sin (pi * x / (x_range / 10 ^ 3))) x_init;
           jacs = setup_MBI (mp_num_elem + 1) mp_num_cp x_init
       in
     bind_err (MissionSegment_init fs mp_num_elem mp_num_cp (Some x_init)
                 (Some ''CRM_params.py'') (Some aero_surr)
                 (Some (fst jacs)) (Some (snd jacs))) (\<lambda>seg0.
       let seg1 = seg0\<lparr>port_vals := (port_vals seg0)(''h_pt'' \<mapsto> h_init)\<rparr>;
           seg2 = seg1\<lparr>port_vals := (port_vals seg1)(''M_pt'' \<mapsto> M_init)\<rparr>
       in
     bind_err (set_init_h_pt gmres seg2 altitude) (\<lambda>seg3.
       Inr (seg3\<lparr>SysSpeed_v_specified := False,
                 S := 427.8 / 10 ^ 2,
                 ac_w := 210000 * 9.81 / 10 ^ 6,
                 thrust_sl := 1020000 / 10 ^ 6,
                 SFCSL := 8.951 * 9.81,
                 AR := 8.68,
                 oswald := 0.8,
                 seg_driver := (seg_driver seg3)\<lparr>system_type := Some ''serial''\<rparr>,
                 coupled_solver := (coupled_solver seg3)\<lparr>system_type := Some ''serial''\<rparr>\<rparr>)))))"

text \<open>
  The assembly part of the script: \<^verbatim>\<open>model.add\<close> of the three segments and
  \<^verbatim>\<open>model.driver.workflow.add(['seg1', 'seg2', 'seg3'])\<close>. The script never calls
  \<^verbatim>\<open>model.connect\<close>.
\<close>

definition multipoint_assemble ::
  "file_system \<Rightarrow> mbi \<Rightarrow> linear_solver \<Rightarrow> 'a \<times> 'a \<times> 'a \<times> 'a \<Rightarrow> py_error + 'a mission" where
  "multipoint_assemble fs setup_MBI gmres surr =
     (let aero_surr = make_aero_surr surr in
      bind_err (build_segment fs setup_MBI gmres aero_surr 9000) (\<lambda>seg1.
      bind_err (build_segment fs setup_MBI gmres aero_surr 7000) (\<lambda>seg2.
      bind_err (build_segment fs setup_MBI gmres aero_surr 5000) (\<lambda>seg3.
        Inr \<lparr>segs = [(''seg1'', seg1), (''seg2'', seg2), (''seg3'', seg3)],
             mission_conns = [],
             mission_workflow = [''seg1'', ''seg2'', ''seg3'']\<rparr>))))"

text \<open>
  Modelled from the spec: one pass of the top workflow over the mission (sections
  4.2 and 4.6; the executor belongs to the framework). The store holds, for each
  child of the top assembly, the values of its ports. Before a child runs, every
  connection into one of its ports copies the value of the source port; then the
  child computes its new port values from its own ones (\<open>compute\<close>, a parameter).
\<close>

type_synonym store = "string \<Rightarrow> string \<rightharpoonup> real list"

definition port_name :: "string \<Rightarrow> string" where
  "port_name path = drop (Suc (length (comp_name path))) path"

definition transfer :: "(string \<times> string) list \<Rightarrow> string \<Rightarrow> store \<Rightarrow> store" where
  "transfer cs c st =
     fold (\<lambda>(src, dst) s.
             if comp_name dst = c
             then s(c := (s c)(port_name dst := s (comp_name src) (port_name src)))
             else s) cs st"

definition run_child ::
  "(string \<Rightarrow> (string \<rightharpoonup> real list) \<Rightarrow> (string \<rightharpoonup> real list)) \<Rightarrow>
   (string \<times> string) list \<Rightarrow> string \<Rightarrow> store \<Rightarrow> store" where
  "run_child compute cs c st = (let st' = transfer cs c st in st'(c := compute c (st' c)))"

definition run_mission ::
  "(string \<Rightarrow> (string \<rightharpoonup> real list) \<Rightarrow> (string \<rightharpoonup> real list)) \<Rightarrow>
   'a mission \<Rightarrow> string list \<Rightarrow> store \<Rightarrow> store" where
  "run_mission compute m order st = fold (run_child compute (mission_conns m)) order st"

subsection \<open>multipoint.py: reporting the fuel burn\<close>

text \<open>\<^verbatim>\<open>xs[i]\<close> on a list with a non-negative index.\<close>

definition getitem_list :: "'a list \<Rightarrow> nat \<Rightarrow> py_error + 'a" where
  "getitem_list xs i = (if i < length xs then Inr (xs ! i) else Inl IndexError)"

text \<open>
  \<^verbatim>\<open>comm.gather(fuelburn, root=0)\<close>: the root receives the list of the values of all
  processes of the communicator, in rank order; every other process receives
  \<^verbatim>\<open>None\<close>. \<open>sent\<close> is that list.
\<close>

definition comm_gather :: "'a list \<Rightarrow> nat \<Rightarrow> 'a list option" where
  "comm_gather sent rank = (if rank = 0 then Some sent else None)"

text \<open>Python's \<^verbatim>\<open>max(a, b, c)\<close>.\<close>

definition max3 :: "real \<Rightarrow> real \<Rightarrow> real \<Rightarrow> real" where
  "max3 a b c = max (max a b) c"

type_synonym fuelburn3 = "real \<times> real \<times> real"

definition leg :: "nat \<Rightarrow> fuelburn3 \<Rightarrow> real" where
  "leg j t = (case t of (a, b, c) \<Rightarrow> if j = 0 then a else if j = 1 then b else c)"

text \<open>
  Lines 185 to 198. \<open>mpi\<close> says whether MPI is active, \<open>rank\<close> is
  \<^verbatim>\<open>MPI.COMM_WORLD.rank\<close>, \<open>fuelburn\<close> the triple of this process's own
  \<^verbatim>\<open>SysFuelObj.fuelburn\<close> values and \<open>sent\<close> the triples of all processes. The
  result is the list of the lines printed, each a label and a value.
\<close>

definition report_fuelburn ::
  "bool \<Rightarrow> nat \<Rightarrow> fuelburn3 \<Rightarrow> fuelburn3 list \<Rightarrow> py_error + (string \<times> real) list" where
  "report_fuelburn mpi rank fuelburn sent =
     (if mpi then
        (let dist_seg = comm_gather sent rank in
         if rank = 0 then
           (case dist_seg of
              None \<Rightarrow> Inl TypeError
            | Some ds \<Rightarrow>
                bind_err (getitem_list ds 0) (\<lambda>d0.
                bind_err (getitem_list ds 1) (\<lambda>d1.
                bind_err (getitem_list ds 2) (\<lambda>d2.
                  Inr [(''seg1 fuel burn'', max3 (leg 0 d0) (leg 0 d1) (leg 0 d2)),
                       (''seg2 fuel burn'', max3 (leg 1 d0) (leg 1 d1) (leg 1 d2)),
                       (''seg3 fuel burn'', max3 (leg 2 d0) (leg 2 d1) (leg 2 d2))]))))
         else Inr [])
      else
        Inr [(''seg1 fuel burn'', leg 0 fuelburn),
             (''seg2 fuel burn'', leg 1 fuelburn),
             (''seg3 fuel burn'', leg 2 fuelburn)])"

subsection \<open>Example inputs\<close>

text \<open>
  A parameter file with the six keys (the values \<^verbatim>\<open>multipoint.py\<close> assigns), four
  surrogate tables, spline operators of the right shape and a linear solver, used
  to run the model on concrete inputs.
\<close>

definition example_params :: params_dict where
  "example_params =
     [''S'' \<mapsto> 427.8 / 10 ^ 2, ''ac_w'' \<mapsto> 210000 * 9.81 / 10 ^ 6,
      ''thrust_sl'' \<mapsto> 1020000 / 10 ^ 6, ''SFCSL'' \<mapsto> 8.951 * 9.81,
      ''AR'' \<mapsto> 8.68, ''e'' \<mapsto> 0.8]"

definition example_fs :: file_system where
  "example_fs f =
     (if f = ''CRM_params.py'' then Inr [''params'' \<mapsto> example_params] else Inl IOError)"

definition example_surr :: "nat \<times> nat \<times> nat \<times> nat" where
  "example_surr = (1, 2, 3, 4)"

definition example_MBI :: mbi where
  "example_MBI n m xs =
     (replicate (nat n) (replicate (nat m) 1), replicate (nat n) (replicate (nat m) 0))"

definition example_gmres :: linear_solver where
  "example_gmres M v = (v, 0)"

text \<open>
  The segment the constructor returns for four elements, three control points, no
  \<^verbatim>\<open>x_pts\<close>, the example parameter file, tables and operators.
\<close>

definition example_segment :: "nat segment" where
  "example_segment =
     exec_stmts MissionSegment_body
       (segment0 4 3 None (427.8 / 10 ^ 2) (210000 * 9.81 / 10 ^ 6)
          (1020000 / 10 ^ 6) (8.951 * 9.81) 8.68 0.8
          (Some (fst (example_MBI 5 3 []))) (Some (snd (example_MBI 5 3 []))) 1 2 3 4
          [1, 3 / 4, 1 / 2, 1 / 4, 0])"

text \<open>A parameter file whose \<^verbatim>\<open>params\<close> lacks the key \<^verbatim>\<open>AR\<close>.\<close>

definition broken_fs :: file_system where
  "broken_fs f = Inr [''params'' \<mapsto> example_params(''AR'' := None)]"


text \<open>
  An endpoint of a connection made inside a segment is local to the segment when it
  names a port of one of the segment's own components (a dotted path whose first
  part is a component added to the segment) or one of its own boundary variables
  (a name without a dot).
\<close>

definition local_endpoint :: "'a segment \<Rightarrow> string \<Rightarrow> bool" where
  "local_endpoint seg path \<longleftrightarrow>
     (if CHR ''.'' \<in> set path then comp_name path \<in> set (map fst (comps seg))
      else path \<in> set (boundary_vars seg))"

section \<open>Properties\<close>

subsection \<open>Sequencing and lookups\<close>

lemma bind_err_Inr: "bind_err m f = Inr y \<longleftrightarrow> (\<exists>x. m = Inr x \<and> f x = Inr y)"
  by (cases m) (simp_all add: bind_err_def)

lemma bind_err_simps:
  "bind_err (Inl e) f = Inl e"
  "bind_err (Inr x) f = f x"
  by (simp_all add: bind_err_def)

lemma getitem_Inr: "getitem d k = Inr v \<longleftrightarrow> d k = Some v"
  by (simp add: getitem_def split: option.splits)

lemma getitem_opt_Inr: "getitem_opt d k = Inr v \<longleftrightarrow> (\<exists>m. d = Some m \<and> m k = Some v)"
  by (cases d) (simp_all add: getitem_opt_def getitem_Inr)

subsection \<open>What the constructor returns\<close>

lemma MissionSegment_init_Inr:
  assumes "MissionSegment_init fs n_elem n_cp xs pf aero jh jg = Inr seg"
  shows "\<exists>data params pS pac pth psf par pe m cl cd cm nums fw.
     execfile fs pf = Inr data \<and> data ''params'' = Some params \<and>
     params ''S'' = Some pS \<and> params ''ac_w'' = Some pac \<and> params ''thrust_sl'' = Some pth \<and>
     params ''SFCSL'' = Some psf \<and> params ''AR'' = Some par \<and> params ''e'' = Some pe \<and>
     aero = Some m \<and> m ''CL'' = Some cl \<and> m ''CD'' = Some cd \<and> m ''CM'' = Some cm \<and>
     m ''nums'' = Some nums \<and> linspace 1 0 (n_elem + 1) = Inr fw \<and>
     seg = exec_stmts MissionSegment_body
             (segment0 n_elem n_cp xs pS pac pth psf par pe jh jg cl cd cm nums fw)"
  using assms unfolding MissionSegment_init_def bind_err_Inr getitem_Inr getitem_opt_Inr
  by fastforce

lemma body_parameters:
  "parameters (coupled_solver (exec_stmts MissionSegment_body s)) =
     parameters (coupled_solver s) @
       [''SysTripanCLSurrogate.alpha'', ''SysTripanCMSurrogate.eta'']"
  by (simp add: exec_stmts_def MissionSegment_body_def)

lemma body_constraints:
  "constraints (coupled_solver (exec_stmts MissionSegment_body s)) =
     constraints (coupled_solver s) @
       [''SysTripanCLSurrogate.alpha_res = 0'', ''SysTripanCMSurrogate.CM = 0'']"
  by (simp add: exec_stmts_def MissionSegment_body_def)

lemma body_passthroughs:
  "passthroughs (exec_stmts MissionSegment_body s) =
     passthroughs s @
      [(''h_pt'', ''SysHBspline.h_pt''), (''v_pt'', ''SysMVBspline.v_pt''),
       (''M_pt'', ''SysMVBspline.M_pt''), (''Tmin'', ''SysTmin.Tmin''),
       (''Tmax'', ''SysTmax.Tmax''), (''fuelburn'', ''SysFuelObj.fuelburn''),
       (''time'', ''SysBlockTime.time''), (''h'', ''SysHBspline.h''),
       (''Gamma'', ''SysGammaBspline.Gamma'')]"
  by (simp add: exec_stmts_def MissionSegment_body_def var_name_def)

lemma body_boundary_vars:
  "boundary_vars (exec_stmts MissionSegment_body s) =
     boundary_vars s @
      [''pax_flt'', ''h_pt'', ''v_pt'', ''M_pt'', ''Tmin'', ''Tmax'', ''fuelburn'',
       ''time'', ''h'', ''Gamma'']"
  by (simp add: exec_stmts_def MissionSegment_body_def var_name_def)

lemma body_h_pt_feeds_gamma:
  "(''h_pt'', ''SysGammaBspline.h_pt'') \<in> set (conns (exec_stmts MissionSegment_body s))"
  by (simp add: exec_stmts_def MissionSegment_body_def)

lemma body_fuel_w:
  "SysFuelWeight_fuel_w (exec_stmts MissionSegment_body s) = SysFuelWeight_fuel_w s"
  by (simp add: exec_stmts_def MissionSegment_body_def)

lemma body_jac_h:
  "jac_h (exec_stmts MissionSegment_body s) = jac_h s"
  by (simp add: exec_stmts_def MissionSegment_body_def)

lemma body_driver_workflow:
  "workflow (seg_driver (exec_stmts MissionSegment_body s)) =
     workflow (seg_driver s) @
       [''SysXBspline'', ''SysHBspline'', ''SysMVBspline'', ''SysGammaBspline'',
        ''SysSFC'', ''SysTemp'', ''SysRho'', ''SysSpeed'',
        ''coupled_solver'',
        ''SysTau'', ''SysTmin'', ''SysTmax'', ''SysFuelObj'', ''SysBlockTime'']"
  by (simp add: exec_stmts_def MissionSegment_body_def)

lemma body_solver_workflow:
  "workflow (coupled_solver (exec_stmts MissionSegment_body s)) =
     workflow (coupled_solver s) @
       [''SysCLTar'', ''SysTripanCLSurrogate'', ''SysTripanCMSurrogate'',
        ''SysTripanCDSurrogate'', ''SysCTTar'', ''SysFuelWeight'']"
  by (simp add: exec_stmts_def MissionSegment_body_def)

lemma body_solver_settings:
  "atol (coupled_solver (exec_stmts MissionSegment_body s)) = atol (coupled_solver s)"
  "rtol (coupled_solver (exec_stmts MissionSegment_body s)) = rtol (coupled_solver s)"
  "max_iteration (coupled_solver (exec_stmts MissionSegment_body s)) =
     max_iteration (coupled_solver s)"
  by (simp_all add: exec_stmts_def MissionSegment_body_def)

lemma linspace_example: "linspace 1 0 5 = Inr [1, 3 / 4, 1 / 2, 1 / 4, 0]"
  by (simp add: linspace_def Let_def upt_conv_Cons)

lemma example_init:
  "MissionSegment_init example_fs 4 3 None (Some ''CRM_params.py'')
     (Some (make_aero_surr example_surr))
     (Some (fst (example_MBI 5 3 []))) (Some (snd (example_MBI 5 3 []))) = Inr example_segment"
  by (simp add: MissionSegment_init_def execfile_def example_fs_def bind_err_simps
      getitem_def getitem_opt_def example_params_def make_aero_surr_def example_surr_def
      linspace_example example_segment_def)

subsection \<open>The coupled group's implicit state ports\<close>

text \<open>
  Claim C1. Whatever the arguments, a segment the constructor returns has exactly
  two parameters registered with its coupled Newton solver, the angle of attack
  \<^verbatim>\<open>SysTripanCLSurrogate.alpha\<close> and the trim control \<^verbatim>\<open>SysTripanCMSurrogate.eta\<close>,
  and exactly two constraints, \<^verbatim>\<open>SysTripanCLSurrogate.alpha_res = 0\<close> and
  \<^verbatim>\<open>SysTripanCMSurrogate.CM = 0\<close>, registered in that order, so that the first
  constraint goes with the first parameter and the second with the second.
\<close>

theorem coupled_solver_two_state_ports:
  assumes "MissionSegment_init fs n_elem n_cp xs pf aero jh jg = Inr seg"
  shows "parameters (coupled_solver seg) =
           [''SysTripanCLSurrogate.alpha'', ''SysTripanCMSurrogate.eta''] \<and>
         constraints (coupled_solver seg) =
           [''SysTripanCLSurrogate.alpha_res = 0'', ''SysTripanCMSurrogate.CM = 0''] \<and>
         zip (parameters (coupled_solver seg)) (constraints (coupled_solver seg)) =
           [(''SysTripanCLSurrogate.alpha'', ''SysTripanCLSurrogate.alpha_res = 0''),
            (''SysTripanCMSurrogate.eta'', ''SysTripanCMSurrogate.CM = 0'')]"
proof -
  from MissionSegment_init_Inr [OF assms] obtain s0 :: "'a segment" where
    seg: "seg = exec_stmts MissionSegment_body s0" and
    empty: "parameters (coupled_solver s0) = []" "constraints (coupled_solver s0) = []"
    by (auto simp: segment0_def)
  show ?thesis
    by (simp add: seg body_parameters body_constraints empty)
qed

theorem coupled_solver_two_state_ports_witness:
  "MissionSegment_init example_fs 4 3 None (Some ''CRM_params.py'')
     (Some (make_aero_surr example_surr))
     (Some (fst (example_MBI 5 3 []))) (Some (snd (example_MBI 5 3 []))) = Inr example_segment \<and>
   parameters (coupled_solver example_segment) =
     [''SysTripanCLSurrogate.alpha'', ''SysTripanCMSurrogate.eta''] \<and>
   constraints (coupled_solver example_segment) =
     [''SysTripanCLSurrogate.alpha_res = 0'', ''SysTripanCMSurrogate.CM = 0'']"
  using coupled_solver_two_state_ports [OF example_init] example_init by simp

subsection \<open>The initial fuel-weight profile\<close>

lemma linspace_unit_profile:
  assumes "1 \<le> n"
  shows "linspace 1 0 (n + 1) = Inr (map (\<lambda>i. 1 - real i / real_of_int n) [0..<nat n + 1])"
proof -
  have nat_eq: "nat (n + 1) = nat n + 1" using assms by (simp add: nat_add_distrib)
  let ?y2 = "map (\<lambda>t. t + 1) (map (\<lambda>t. t * ((0 - 1) / real_of_int n)) (map real [0..<nat n + 1]))"
  have "?y2[nat n := 0] = map (\<lambda>i. 1 - real i / real_of_int n) [0..<nat n + 1]"
  proof (rule nth_equalityI)
    show "length (?y2[nat n := 0]) = length (map (\<lambda>i. 1 - real i / real_of_int n) [0..<nat n + 1])"
      by simp
  next
    fix i assume "i < length (?y2[nat n := 0])"
    then have i: "i < nat n + 1" by simp
    show "?y2[nat n := 0] ! i = map (\<lambda>i. 1 - real i / real_of_int n) [0..<nat n + 1] ! i"
    proof (cases "i = nat n")
      case True
      with assms show ?thesis by (simp del: upt_Suc)
    next
      case False
      with i show ?thesis by (simp del: upt_Suc add: nth_append field_simps)
    qed
  qed
  with assms show ?thesis
    by (simp add: linspace_def Let_def nat_eq del: upt_Suc)
qed

lemma linspace_single: "linspace 1 0 1 = Inr [1]"
  by (simp add: linspace_def Let_def)

lemma MissionSegment_init_fuel_w:
  assumes "MissionSegment_init fs n_elem n_cp xs pf aero jh jg = Inr seg"
  shows "linspace 1 0 (n_elem + 1) = Inr (SysFuelWeight_fuel_w seg)"
proof -
  from MissionSegment_init_Inr [OF assms] obtain s0 :: "'a segment" and fw where
    "seg = exec_stmts MissionSegment_body s0" "SysFuelWeight_fuel_w s0 = fw"
    "linspace 1 0 (n_elem + 1) = Inr fw"
    by (auto simp: segment0_def)
  then show ?thesis by (simp add: body_fuel_w)
qed

text \<open>
  Claim C9, as amended. For every \<^verbatim>\<open>num_elem\<close> of at least one, the segment the
  constructor returns has \<^verbatim>\<open>SysFuelWeight.fuel_w\<close> set to a profile over the
  \<^verbatim>\<open>num_elem + 1\<close> stations that starts at 1, ends at 0 and decreases linearly:
  station \<open>i\<close> holds \<open>1 - i / num_elem\<close>, each station less than the one before.
\<close>

theorem fuel_w_initial_profile:
  assumes "MissionSegment_init fs n_elem n_cp xs pf aero jh jg = Inr seg"
    and "1 \<le> n_elem"
  shows "length (SysFuelWeight_fuel_w seg) = nat n_elem + 1 \<and>
         (\<forall>i. i \<le> nat n_elem \<longrightarrow>
            SysFuelWeight_fuel_w seg ! i = 1 - real i / real_of_int n_elem) \<and>
         hd (SysFuelWeight_fuel_w seg) = 1 \<and>
         last (SysFuelWeight_fuel_w seg) = 0 \<and>
         (\<forall>i. i < nat n_elem \<longrightarrow>
            SysFuelWeight_fuel_w seg ! Suc i < SysFuelWeight_fuel_w seg ! i)"
proof -
  let ?fw = "SysFuelWeight_fuel_w seg"
  let ?p = "map (\<lambda>i. 1 - real i / real_of_int n_elem) [0..<nat n_elem + 1]"
  from MissionSegment_init_fuel_w [OF assms(1)] linspace_unit_profile [OF assms(2)]
  have fw: "?fw = ?p" by simp
  have len: "length ?p = nat n_elem + 1" by simp
  have nth: "?p ! i = 1 - real i / real_of_int n_elem" if "i \<le> nat n_elem" for i
    using that nth_map_upt [of i "nat n_elem + 1" 0 "\<lambda>i. 1 - real i / real_of_int n_elem"]
    by simp
  have pos: "0 < real_of_int n_elem" using assms(2) by simp
  have hd: "hd ?p = 1"
    using nth [of 0] len by (simp add: hd_conv_nth del: upt_Suc)
  have "last ?p = ?p ! nat n_elem"
    using len by (simp add: last_conv_nth del: upt_Suc)
  also have "\<dots> = 0" using nth [of "nat n_elem"] assms(2) by simp
  finally have last: "last ?p = 0" .
  have dec: "?p ! Suc i < ?p ! i" if "i < nat n_elem" for i
  proof -
    have "?p ! Suc i = 1 - real (Suc i) / real_of_int n_elem" using that nth [of "Suc i"] by simp
    moreover have "?p ! i = 1 - real i / real_of_int n_elem" using that nth [of i] by simp
    moreover have "real i / real_of_int n_elem < real (Suc i) / real_of_int n_elem"
      using pos by (simp add: divide_strict_right_mono)
    ultimately show ?thesis by simp
  qed
  show ?thesis
    unfolding fw using len nth hd last dec by blast
qed

theorem fuel_w_initial_profile_witness:
  "MissionSegment_init example_fs 4 3 None (Some ''CRM_params.py'')
     (Some (make_aero_surr example_surr))
     (Some (fst (example_MBI 5 3 []))) (Some (snd (example_MBI 5 3 []))) = Inr example_segment \<and>
   (1::int) \<le> 4 \<and>
   length (SysFuelWeight_fuel_w example_segment) = 5 \<and>
   hd (SysFuelWeight_fuel_w example_segment) = 1 \<and>
   last (SysFuelWeight_fuel_w example_segment) = 0 \<and>
   SysFuelWeight_fuel_w example_segment ! 2 = 1 - 2 / 4"
proof -
  have h: "(1::int) \<le> 4" by simp
  from fuel_w_initial_profile [OF example_init h]
  have "length (SysFuelWeight_fuel_w example_segment) = 5"
    "hd (SysFuelWeight_fuel_w example_segment) = 1"
    "last (SysFuelWeight_fuel_w example_segment) = 0"
    "SysFuelWeight_fuel_w example_segment ! 2 = 1 - real 2 / real_of_int 4"
    by simp_all
  with example_init h show ?thesis by simp
qed

text \<open>
  With \<^verbatim>\<open>num_elem = 0\<close> the constructor succeeds and the profile is the single
  station \<open>[1]\<close>: it does not come down to 0.
\<close>

theorem fuel_w_initial_profile_counterexample:
  "(case MissionSegment_init example_fs 0 3 None (Some ''CRM_params.py'')
           (Some (make_aero_surr example_surr)) None None
    of Inl e \<Rightarrow> False
     | Inr seg \<Rightarrow> SysFuelWeight_fuel_w seg = [1] \<and> last (SysFuelWeight_fuel_w seg) \<noteq> 0)"
  by (simp add: MissionSegment_init_def execfile_def example_fs_def bind_err_simps
      getitem_def getitem_opt_def example_params_def make_aero_surr_def example_surr_def
      linspace_single body_fuel_w segment0_def)

subsection \<open>The boundary ports\<close>

text \<open>
  Claim C8. A segment the constructor returns has exactly nine passthrough ports,
  created in this order: \<^verbatim>\<open>h_pt\<close> (of \<^verbatim>\<open>SysHBspline\<close>), \<^verbatim>\<open>v_pt\<close> and \<^verbatim>\<open>M_pt\<close> (of
  \<^verbatim>\<open>SysMVBspline\<close>), \<^verbatim>\<open>Tmin\<close>, \<^verbatim>\<open>Tmax\<close>, \<^verbatim>\<open>fuelburn\<close>, \<^verbatim>\<open>time\<close>, \<^verbatim>\<open>h\<close> and
  \<^verbatim>\<open>Gamma\<close>; and the boundary port \<^verbatim>\<open>h_pt\<close> is also connected to
  \<^verbatim>\<open>SysGammaBspline.h_pt\<close>.
\<close>

theorem segment_passthrough_ports:
  assumes "MissionSegment_init fs n_elem n_cp xs pf aero jh jg = Inr seg"
  shows "passthroughs seg =
           [(''h_pt'', ''SysHBspline.h_pt''), (''v_pt'', ''SysMVBspline.v_pt''),
            (''M_pt'', ''SysMVBspline.M_pt''), (''Tmin'', ''SysTmin.Tmin''),
            (''Tmax'', ''SysTmax.Tmax''), (''fuelburn'', ''SysFuelObj.fuelburn''),
            (''time'', ''SysBlockTime.time''), (''h'', ''SysHBspline.h''),
            (''Gamma'', ''SysGammaBspline.Gamma'')] \<and>
         map fst (passthroughs seg) =
           [''h_pt'', ''v_pt'', ''M_pt'', ''Tmin'', ''Tmax'', ''fuelburn'', ''time'', ''h'',
            ''Gamma''] \<and>
         (''h_pt'', ''SysGammaBspline.h_pt'') \<in> set (conns seg) \<and>
         boundary_vars seg = ''pax_flt'' # map fst (passthroughs seg)"
proof -
  from MissionSegment_init_Inr [OF assms] obtain s0 :: "'a segment" where
    seg: "seg = exec_stmts MissionSegment_body s0" and
    empty: "passthroughs s0 = []" "boundary_vars s0 = []"
    by (auto simp: segment0_def)
  show ?thesis
    by (simp add: seg body_passthroughs body_boundary_vars body_h_pt_feeds_gamma empty)
qed

theorem segment_passthrough_ports_witness:
  "MissionSegment_init example_fs 4 3 None (Some ''CRM_params.py'')
     (Some (make_aero_surr example_surr))
     (Some (fst (example_MBI 5 3 []))) (Some (snd (example_MBI 5 3 []))) = Inr example_segment \<and>
   map fst (passthroughs example_segment) =
     [''h_pt'', ''v_pt'', ''M_pt'', ''Tmin'', ''Tmax'', ''fuelburn'', ''time'', ''h'', ''Gamma''] \<and>
   (''h_pt'', ''SysGammaBspline.h_pt'') \<in> set (conns example_segment)"
  using segment_passthrough_ports [OF example_init] example_init by simp

subsection \<open>The parameter source\<close>

lemma init_execfile_error:
  "execfile fs pf = Inl err \<Longrightarrow>
   MissionSegment_init fs n_elem n_cp xs pf aero jh jg = Inl err"
  by (simp add: MissionSegment_init_def bind_err_simps)

lemma init_no_params:
  "execfile fs pf = Inr data \<Longrightarrow> data ''params'' = None \<Longrightarrow>
   MissionSegment_init fs n_elem n_cp xs pf aero jh jg = Inl (KeyError ''params'')"
  by (simp add: MissionSegment_init_def bind_err_simps getitem_def)

lemma init_missing_key:
  assumes "execfile fs pf = Inr data" and "data ''params'' = Some params"
    and "find (\<lambda>k. params k = None) required_keys = Some k0"
  shows "MissionSegment_init fs n_elem n_cp xs pf aero jh jg = Inl (KeyError k0)"
  using assms
  by (auto simp: MissionSegment_init_def bind_err_simps getitem_def required_keys_def
      split: if_splits option.splits)

lemma init_reads_required_keys_only:
  assumes "execfile fs pf = Inr data" and "data ''params'' = Some params"
    and "execfile fs' pf' = Inr data'" and "data' ''params'' = Some params'"
    and "list_all (\<lambda>k. params k = params' k) required_keys"
  shows "MissionSegment_init fs n_elem n_cp xs pf aero jh jg =
         MissionSegment_init fs' n_elem n_cp xs pf' aero jh jg"
  using assms
  by (simp add: MissionSegment_init_def bind_err_simps getitem_def required_keys_def)

text \<open>
  Claim C7. The constructor fails, returning no segment, whenever the parameter
  source is missing or malformed: when \<^verbatim>\<open>execfile\<close> raises (an unreadable file, or
  no file name at all) the constructor raises the same exception; when the file
  binds no \<^verbatim>\<open>params\<close> it raises \<^verbatim>\<open>KeyError\<close>; when \<^verbatim>\<open>params\<close> lacks one of the keys
  \<^verbatim>\<open>S\<close>, \<^verbatim>\<open>ac_w\<close>, \<^verbatim>\<open>thrust_sl\<close>, \<^verbatim>\<open>SFCSL\<close>, \<^verbatim>\<open>AR\<close>, \<^verbatim>\<open>e\<close> it raises \<^verbatim>\<open>KeyError\<close> for
  the first one missing. These six are the only keys read: two parameter sources
  that agree on them give the same result.
\<close>

theorem parameter_source_failures:
  "(execfile fs pf = Inl err \<longrightarrow>
      MissionSegment_init fs n_elem n_cp xs pf aero jh jg = Inl err) \<and>
   MissionSegment_init fs n_elem n_cp xs None aero jh jg = Inl TypeError \<and>
   (execfile fs pf = Inr data \<and> data ''params'' = None \<longrightarrow>
      MissionSegment_init fs n_elem n_cp xs pf aero jh jg = Inl (KeyError ''params'')) \<and>
   (execfile fs pf = Inr data \<and> data ''params'' = Some params \<and>
    k \<in> set required_keys \<and> params k = None \<longrightarrow>
      (\<exists>k0. find (\<lambda>k. params k = None) required_keys = Some k0 \<and>
            MissionSegment_init fs n_elem n_cp xs pf aero jh jg = Inl (KeyError k0))) \<and>
   (execfile fs pf = Inr data \<and> data ''params'' = Some params \<and>
    execfile fs' pf' = Inr data' \<and> data' ''params'' = Some params' \<and>
    list_all (\<lambda>k. params k = params' k) required_keys \<longrightarrow>
      MissionSegment_init fs n_elem n_cp xs pf aero jh jg =
      MissionSegment_init fs' n_elem n_cp xs pf' aero jh jg)"
proof -
  have none: "MissionSegment_init fs n_elem n_cp xs None aero jh jg = Inl TypeError"
    by (rule init_execfile_error) (simp add: execfile_def)
  have missing: "\<exists>k0. find (\<lambda>k. params k = None) required_keys = Some k0 \<and>
            MissionSegment_init fs n_elem n_cp xs pf aero jh jg = Inl (KeyError k0)"
    if "execfile fs pf = Inr data" "data ''params'' = Some params"
      "k \<in> set required_keys" "params k = None"
  proof -
    from that(3,4) have "find (\<lambda>k. params k = None) required_keys \<noteq> None"
      by (auto simp: find_None_iff)
    then obtain k0 where "find (\<lambda>k. params k = None) required_keys = Some k0" by auto
    with init_missing_key [OF that(1,2)] show ?thesis by blast
  qed
  show ?thesis
    using init_execfile_error [of fs pf err] none init_no_params [of fs pf data] missing
      init_reads_required_keys_only [of fs pf data params fs' pf' data' params']
    by blast
qed

theorem parameter_source_failures_witness:
  "execfile example_fs (Some ''no_such_file.py'') = Inl IOError \<and>
   MissionSegment_init example_fs 4 3 None (Some ''no_such_file.py'')
     (Some (make_aero_surr example_surr)) None None = Inl IOError \<and>
   execfile broken_fs (Some ''CRM_params.py'') = Inr [''params'' \<mapsto> example_params(''AR'' := None)] \<and>
   ''AR'' \<in> set required_keys \<and> (example_params(''AR'' := None)) ''AR'' = None \<and>
   MissionSegment_init broken_fs 4 3 None (Some ''CRM_params.py'')
     (Some (make_aero_surr example_surr)) None None = Inl (KeyError ''AR'')"
proof -
  have a: "execfile example_fs (Some ''no_such_file.py'') = Inl IOError"
    by (simp add: execfile_def example_fs_def)
  have b: "execfile broken_fs (Some ''CRM_params.py'') =
             Inr [''params'' \<mapsto> example_params(''AR'' := None)]"
    by (simp add: execfile_def broken_fs_def)
  have c: "''AR'' \<in> set required_keys" by (simp add: required_keys_def)
  have d: "find (\<lambda>k. (example_params(''AR'' := None)) k = None) required_keys = Some ''AR''"
    by (simp add: required_keys_def example_params_def)
  from parameter_source_failures [of example_fs "Some ''no_such_file.py''" IOError 4 3 None
      "Some (make_aero_surr example_surr)" None None]
    a
  have e: "MissionSegment_init example_fs 4 3 None (Some ''no_such_file.py'')
     (Some (make_aero_surr example_surr)) None None = Inl IOError"
    by blast
  from parameter_source_failures [of broken_fs "Some ''CRM_params.py''" _ 4 3 None
      "Some (make_aero_surr example_surr)" None None
      "[''params'' \<mapsto> example_params(''AR'' := None)]" "example_params(''AR'' := None)" "''AR''"]
    b c d
  have f: "MissionSegment_init broken_fs 4 3 None (Some ''CRM_params.py'')
     (Some (make_aero_surr example_surr)) None None = Inl (KeyError ''AR'')"
    by simp
  from a b c e f show ?thesis by simp
qed

subsection \<open>The workflows\<close>

lemma run_workflow_fold:
  "run_workflow compute steps (st, trace) = (fold compute steps st, trace @ steps)"
  by (induction steps arbitrary: st trace) simp_all

text \<open>
  Claim C4. A segment the constructor returns has as top workflow the four spline
  systems, the atmospheric chain (\<^verbatim>\<open>SysSFC\<close>, \<^verbatim>\<open>SysTemp\<close>, \<^verbatim>\<open>SysRho\<close>,
  \<^verbatim>\<open>SysSpeed\<close>), the coupled solver as a single step, and the five functionals, in
  this order, and as the coupled solver's workflow its six systems in a fixed
  order. One run of either workflow executes exactly these steps in exactly this
  order, each of them once, whatever the steps compute: the log of the run is the
  workflow, with every step once in it, and the state after the run is the
  initial state with the computation of each step applied to it once, in this
  order.
\<close>

theorem workflow_order_fixed:
  assumes "MissionSegment_init fs n_elem n_cp xs pf aero jh jg = Inr seg"
  shows "workflow (seg_driver seg) =
           [''SysXBspline'', ''SysHBspline'', ''SysMVBspline'', ''SysGammaBspline'',
            ''SysSFC'', ''SysTemp'', ''SysRho'', ''SysSpeed'',
            ''coupled_solver'',
            ''SysTau'', ''SysTmin'', ''SysTmax'', ''SysFuelObj'', ''SysBlockTime''] \<and>
         workflow (coupled_solver seg) =
           [''SysCLTar'', ''SysTripanCLSurrogate'', ''SysTripanCMSurrogate'',
            ''SysTripanCDSurrogate'', ''SysCTTar'', ''SysFuelWeight''] \<and>
         snd (run_workflow compute (workflow (seg_driver seg)) (st, [])) =
           workflow (seg_driver seg) \<and>
         snd (run_workflow compute (workflow (coupled_solver seg)) (st, [])) =
           workflow (coupled_solver seg) \<and>
         (\<forall>c \<in> set (workflow (seg_driver seg)).
            count_list (snd (run_workflow compute (workflow (seg_driver seg)) (st, []))) c = 1) \<and>
         (\<forall>c \<in> set (workflow (coupled_solver seg)).
            count_list (snd (run_workflow compute (workflow (coupled_solver seg)) (st, []))) c = 1) \<and>
         fst (run_workflow compute (workflow (seg_driver seg)) (st, [])) =
           fold compute (workflow (seg_driver seg)) st \<and>
         fst (run_workflow compute (workflow (coupled_solver seg)) (st, [])) =
           fold compute (workflow (coupled_solver seg)) st \<and>
         fst (run_workflow compute (workflow (seg_driver seg)) (st, [])) =
           compute ''SysBlockTime'' (compute ''SysFuelObj'' (compute ''SysTmax''
             (compute ''SysTmin'' (compute ''SysTau''
               (compute ''coupled_solver''
                 (compute ''SysSpeed'' (compute ''SysRho'' (compute ''SysTemp''
                   (compute ''SysSFC''
                     (compute ''SysGammaBspline'' (compute ''SysMVBspline''
                       (compute ''SysHBspline''
                         (compute ''SysXBspline'' st))))))))))))) \<and>
         fst (run_workflow compute (workflow (coupled_solver seg)) (st, [])) =
           compute ''SysFuelWeight'' (compute ''SysCTTar''
             (compute ''SysTripanCDSurrogate'' (compute ''SysTripanCMSurrogate''
               (compute ''SysTripanCLSurrogate'' (compute ''SysCLTar'' st)))))"
proof -
  from MissionSegment_init_Inr [OF assms] obtain s0 :: "'a segment" where
    seg: "seg = exec_stmts MissionSegment_body s0" and
    empty: "workflow (seg_driver s0) = []" "workflow (coupled_solver s0) = []"
    by (auto simp: segment0_def)
  have top: "workflow (seg_driver seg) =
           [''SysXBspline'', ''SysHBspline'', ''SysMVBspline'', ''SysGammaBspline'',
            ''SysSFC'', ''SysTemp'', ''SysRho'', ''SysSpeed'',
            ''coupled_solver'',
            ''SysTau'', ''SysTmin'', ''SysTmax'', ''SysFuelObj'', ''SysBlockTime'']"
    by (simp add: seg body_driver_workflow empty)
  have inner: "workflow (coupled_solver seg) =
           [''SysCLTar'', ''SysTripanCLSurrogate'', ''SysTripanCMSurrogate'',
            ''SysTripanCDSurrogate'', ''SysCTTar'', ''SysFuelWeight'']"
    by (simp add: seg body_solver_workflow empty)
  have once_top: "\<forall>c \<in> set (workflow (seg_driver seg)). count_list (workflow (seg_driver seg)) c = 1"
    unfolding top by simp
  have once_inner:
    "\<forall>c \<in> set (workflow (coupled_solver seg)). count_list (workflow (coupled_solver seg)) c = 1"
    unfolding inner by simp
  have log_top: "snd (run_workflow compute (workflow (seg_driver seg)) (st, [])) =
           workflow (seg_driver seg)"
    by (simp add: run_workflow_fold)
  have log_inner: "snd (run_workflow compute (workflow (coupled_solver seg)) (st, [])) =
           workflow (coupled_solver seg)"
    by (simp add: run_workflow_fold)
  have state_top: "fst (run_workflow compute (workflow (seg_driver seg)) (st, [])) =
           fold compute (workflow (seg_driver seg)) st"
    by (simp add: run_workflow_fold)
  have state_inner: "fst (run_workflow compute (workflow (coupled_solver seg)) (st, [])) =
           fold compute (workflow (coupled_solver seg)) st"
    by (simp add: run_workflow_fold)
  have steps_top: "fold compute (workflow (seg_driver seg)) st =
           compute ''SysBlockTime'' (compute ''SysFuelObj'' (compute ''SysTmax''
             (compute ''SysTmin'' (compute ''SysTau''
               (compute ''coupled_solver''
                 (compute ''SysSpeed'' (compute ''SysRho'' (compute ''SysTemp''
                   (compute ''SysSFC''
                     (compute ''SysGammaBspline'' (compute ''SysMVBspline''
                       (compute ''SysHBspline''
                         (compute ''SysXBspline'' st)))))))))))))"
    unfolding top by simp
  have steps_inner: "fold compute (workflow (coupled_solver seg)) st =
           compute ''SysFuelWeight'' (compute ''SysCTTar''
             (compute ''SysTripanCDSurrogate'' (compute ''SysTripanCMSurrogate''
               (compute ''SysTripanCLSurrogate'' (compute ''SysCLTar'' st)))))"
    unfolding inner by simp
  from once_top have count_top: "\<forall>c \<in> set (workflow (seg_driver seg)).
      count_list (snd (run_workflow compute (workflow (seg_driver seg)) (st, []))) c = 1"
    unfolding log_top .
  from once_inner have count_inner: "\<forall>c \<in> set (workflow (coupled_solver seg)).
      count_list (snd (run_workflow compute (workflow (coupled_solver seg)) (st, []))) c = 1"
    unfolding log_inner .
  from state_top steps_top have run_top:
    "fst (run_workflow compute (workflow (seg_driver seg)) (st, [])) =
           compute ''SysBlockTime'' (compute ''SysFuelObj'' (compute ''SysTmax''
             (compute ''SysTmin'' (compute ''SysTau''
               (compute ''coupled_solver''
                 (compute ''SysSpeed'' (compute ''SysRho'' (compute ''SysTemp''
                   (compute ''SysSFC''
                     (compute ''SysGammaBspline'' (compute ''SysMVBspline''
                       (compute ''SysHBspline''
                         (compute ''SysXBspline'' st)))))))))))))"
    by (rule trans)
  from state_inner steps_inner have run_inner:
    "fst (run_workflow compute (workflow (coupled_solver seg)) (st, [])) =
           compute ''SysFuelWeight'' (compute ''SysCTTar''
             (compute ''SysTripanCDSurrogate'' (compute ''SysTripanCMSurrogate''
               (compute ''SysTripanCLSurrogate'' (compute ''SysCLTar'' st)))))"
    by (rule trans)
  from top inner log_top log_inner count_top count_inner state_top state_inner
    run_top run_inner
  show ?thesis by (intro conjI)
qed

theorem workflow_order_fixed_witness:
  "MissionSegment_init example_fs 4 3 None (Some ''CRM_params.py'')
     (Some (make_aero_surr example_surr))
     (Some (fst (example_MBI 5 3 []))) (Some (snd (example_MBI 5 3 []))) = Inr example_segment \<and>
   ''coupled_solver'' \<in> set (workflow (seg_driver example_segment)) \<and>
   snd (run_workflow (\<lambda>c n. Suc n) (workflow (seg_driver example_segment)) (0, [])) =
     [''SysXBspline'', ''SysHBspline'', ''SysMVBspline'', ''SysGammaBspline'',
      ''SysSFC'', ''SysTemp'', ''SysRho'', ''SysSpeed'',
      ''coupled_solver'',
      ''SysTau'', ''SysTmin'', ''SysTmax'', ''SysFuelObj'', ''SysBlockTime''] \<and>
   count_list (snd (run_workflow (\<lambda>c n. Suc n) (workflow (seg_driver example_segment)) (0, [])))
     ''coupled_solver'' = 1 \<and>
   ''SysCTTar'' \<in> set (workflow (coupled_solver example_segment)) \<and>
   count_list (snd (run_workflow (\<lambda>c n. Suc n) (workflow (coupled_solver example_segment)) (0, [])))
     ''SysCTTar'' = 1 \<and>
   fst (run_workflow (\<lambda>c n. Suc n) (workflow (seg_driver example_segment)) (0, [])) = 14 \<and>
   fst (run_workflow (\<lambda>c n. Suc n) (workflow (coupled_solver example_segment)) (0, [])) = 6 \<and>
   fst (run_workflow (\<lambda>c acc. acc @ [c]) (workflow (coupled_solver example_segment))
          ([], [])) =
     [''SysCLTar'', ''SysTripanCLSurrogate'', ''SysTripanCMSurrogate'',
      ''SysTripanCDSurrogate'', ''SysCTTar'', ''SysFuelWeight'']"
proof -
  note w = workflow_order_fixed [OF example_init, of "\<lambda>c n. Suc n" 0]
  note v = workflow_order_fixed [OF example_init, of "\<lambda>c acc. acc @ [c]" "[]"]
  have a: "''coupled_solver'' \<in> set (workflow (seg_driver example_segment))"
    using w by simp
  have b: "''SysCTTar'' \<in> set (workflow (coupled_solver example_segment))"
    using w by simp
  have c: "fst (run_workflow (\<lambda>c n. Suc n) (workflow (seg_driver example_segment)) (0, [])) = 14"
    using w by simp
  have d: "fst (run_workflow (\<lambda>c n. Suc n) (workflow (coupled_solver example_segment)) (0, [])) = 6"
    using w by simp
  have e: "fst (run_workflow (\<lambda>c acc. acc @ [c]) (workflow (coupled_solver example_segment))
          ([], [])) =
     [''SysCLTar'', ''SysTripanCLSurrogate'', ''SysTripanCMSurrogate'',
      ''SysTripanCDSurrogate'', ''SysCTTar'', ''SysFuelWeight'']"
    using v by simp
  from w a b c d e example_init show ?thesis by simp
qed

subsection \<open>The coupled solver's iteration\<close>

lemma newton_iterate_lower:
  "k \<le> iterations (newton_iterate R update a r norm0 budget k st)"
proof (induction budget arbitrary: k st)
  case 0
  show ?case by simp
next
  case (Suc budget)
  from Suc [of "Suc k" "update st"] show ?case by simp
qed

lemma newton_iterate_upper:
  "iterations (newton_iterate R update a r norm0 budget k st) \<le> k + budget"
proof (induction budget arbitrary: k st)
  case 0
  show ?case by simp
next
  case (Suc budget)
  from Suc [of "Suc k" "update st"] show ?case by simp
qed

lemma newton_iterate_res_norm:
  "res_norm (newton_iterate R update a r norm0 budget k st) =
     R (final_state (newton_iterate R update a r norm0 budget k st))"
  by (induction budget arbitrary: k st) simp_all

lemma newton_iterate_converged:
  "converged (newton_iterate R update a r norm0 budget k st) \<longleftrightarrow>
     within_tol a r norm0 (res_norm (newton_iterate R update a r norm0 budget k st))"
  by (induction budget arbitrary: k st) simp_all

lemma newton_iterate_cap:
  "\<not> converged (newton_iterate R update a r norm0 budget k st) \<Longrightarrow>
   iterations (newton_iterate R update a r norm0 budget k st) = k + budget"
proof (induction budget arbitrary: k st)
  case 0
  show ?case by simp
next
  case (Suc budget)
  show ?case
  proof (cases "within_tol a r norm0 (R st)")
    case True
    with Suc.prems show ?thesis by simp
  next
    case False
    with Suc.prems Suc.IH [of "Suc k" "update st"] show ?thesis by simp
  qed
qed

lemma newton_iterate_final_state:
  "final_state (newton_iterate R update a r norm0 budget k st) =
     (update ^^ (iterations (newton_iterate R update a r norm0 budget k st) - k)) st"
proof (induction budget arbitrary: k st)
  case 0
  show ?case by simp
next
  case (Suc budget)
  show ?case
  proof (cases "within_tol a r norm0 (R st)")
    case True
    then show ?thesis by simp
  next
    case False
    let ?n = "iterations (newton_iterate R update a r norm0 budget (Suc k) (update st))"
    have "Suc k \<le> ?n" by (rule newton_iterate_lower)
    then have sub: "?n - k = Suc (?n - Suc k)" by simp
    have "final_state (newton_iterate R update a r norm0 budget (Suc k) (update st)) =
            (update ^^ (?n - Suc k)) (update st)"
      by (rule Suc.IH)
    also have "\<dots> = (update ^^ (?n - k)) st"
      unfolding sub by (simp add: funpow_swap1)
    finally show ?thesis using False by simp
  qed
qed

lemma newton_iterate_first:
  "j < iterations (newton_iterate R update a r norm0 budget k st) - k \<Longrightarrow>
   \<not> within_tol a r norm0 (R ((update ^^ j) st))"
proof (induction budget arbitrary: k st j)
  case 0
  then show ?case by simp
next
  case (Suc budget)
  show ?case
  proof (cases "within_tol a r norm0 (R st)")
    case True
    with Suc.prems show ?thesis by simp
  next
    case False
    let ?n = "iterations (newton_iterate R update a r norm0 budget (Suc k) (update st))"
    from Suc.prems False have j: "j < ?n - k" by simp
    show ?thesis
    proof (cases j)
      case 0
      with False show ?thesis by simp
    next
      case (Suc j')
      with j have "j' < ?n - Suc k" by simp
      then have "\<not> within_tol a r norm0 (R ((update ^^ j') (update st)))"
        by (rule Suc.IH)
      then show ?thesis by (simp add: Suc funpow_swap1)
    qed
  qed
qed

text \<open>
  Claim C2. A segment the constructor returns has the absolute and the relative
  tolerance of its coupled solver both set to \<open>10\<^sup>-\<^sup>9\<close> and the iteration cap to 15.
  With these settings every run of the outer Newton iteration returns a report
  (it cannot raise): the iteration stops at the first state whose residual norm
  meets both tolerances, and is then converged; otherwise it stops after exactly
  15 updates, not converged. In both cases the number of updates is at most 15
  and the reported norm is the residual norm at the final state.
\<close>

theorem coupled_solver_terminates:
  assumes "MissionSegment_init fs n_elem n_cp xs pf aero jh jg = Inr seg"
  shows "atol (coupled_solver seg) = 1 / 10 ^ 9 \<and>
         rtol (coupled_solver seg) = 1 / 10 ^ 9 \<and>
         max_iteration (coupled_solver seg) = 15 \<and>
         (let rep = run_coupled_solver (coupled_solver seg) R update st0 in
            iterations rep \<le> 15 \<and>
            final_state rep = (update ^^ iterations rep) st0 \<and>
            res_norm rep = R (final_state rep) \<and>
            (converged rep \<longleftrightarrow> within_tol (1 / 10 ^ 9) (1 / 10 ^ 9) (R st0) (res_norm rep)) \<and>
            (\<not> converged rep \<longrightarrow> iterations rep = 15) \<and>
            (\<forall>j. j < iterations rep \<longrightarrow>
               \<not> within_tol (1 / 10 ^ 9) (1 / 10 ^ 9) (R st0) (R ((update ^^ j) st0))))"
proof -
  from MissionSegment_init_Inr [OF assms] obtain s0 :: "'a segment" where
    seg: "seg = exec_stmts MissionSegment_body s0" and
    s0: "atol (coupled_solver s0) = 1 / 10 ^ 9" "rtol (coupled_solver s0) = 1 / 10 ^ 9"
      "max_iteration (coupled_solver s0) = 15"
    by (auto simp: segment0_def)
  have a: "atol (coupled_solver seg) = 1 / 10 ^ 9"
    unfolding seg body_solver_settings by (rule s0)
  have r: "rtol (coupled_solver seg) = 1 / 10 ^ 9"
    unfolding seg body_solver_settings by (rule s0)
  have m: "max_iteration (coupled_solver seg) = 15"
    unfolding seg body_solver_settings by (rule s0)
  define rep where "rep = newton_iterate R update (1 / 10 ^ 9) (1 / 10 ^ 9) (R st0) 15 0 st0"
  have run: "run_coupled_solver (coupled_solver seg) R update st0 = rep"
    unfolding run_coupled_solver_def a r m rep_def ..
  have 1: "iterations rep \<le> 15"
    using newton_iterate_upper [of R update "1 / 10 ^ 9" "1 / 10 ^ 9" "R st0" 15 0 st0]
    unfolding rep_def by simp
  have 2: "final_state rep = (update ^^ iterations rep) st0"
    using newton_iterate_final_state [of R update "1 / 10 ^ 9" "1 / 10 ^ 9" "R st0" 15 0 st0]
    unfolding rep_def by simp
  have 3: "res_norm rep = R (final_state rep)"
    unfolding rep_def by (rule newton_iterate_res_norm)
  have 4: "converged rep \<longleftrightarrow> within_tol (1 / 10 ^ 9) (1 / 10 ^ 9) (R st0) (res_norm rep)"
    unfolding rep_def by (rule newton_iterate_converged)
  have 5: "\<not> converged rep \<longrightarrow> iterations rep = 15"
    using newton_iterate_cap [of R update "1 / 10 ^ 9" "1 / 10 ^ 9" "R st0" 15 0 st0]
    unfolding rep_def by simp
  have 6: "\<forall>j. j < iterations rep \<longrightarrow>
             \<not> within_tol (1 / 10 ^ 9) (1 / 10 ^ 9) (R st0) (R ((update ^^ j) st0))"
    using newton_iterate_first [of _ R update "1 / 10 ^ 9" "1 / 10 ^ 9" "R st0" 15 0 st0]
    unfolding rep_def by simp
  show ?thesis
    unfolding Let_def run using a r m 1 2 3 4 5 6 by blast
qed

lemma example_solver_settings:
  "atol (coupled_solver example_segment) = 1 / 10 ^ 9"
  "rtol (coupled_solver example_segment) = 1 / 10 ^ 9"
  "max_iteration (coupled_solver example_segment) = 15"
  by (simp_all add: example_segment_def body_solver_settings segment0_def)

lemma example_run_halving:
  "run_coupled_solver (coupled_solver example_segment) abs (\<lambda>x. x / 2) (1::real) =
     \<lparr>final_state = 1 / 2 ^ 15, res_norm = 1 / 2 ^ 15, iterations = 15, converged = False\<rparr>"
  unfolding run_coupled_solver_def example_solver_settings
  by (simp add: within_tol_def eval_nat_numeral)

lemma example_run_exact:
  "run_coupled_solver (coupled_solver example_segment) abs (\<lambda>x. 0) (1::real) =
     \<lparr>final_state = 0, res_norm = 0, iterations = 1, converged = True\<rparr>"
  unfolding run_coupled_solver_def example_solver_settings
  by (simp add: within_tol_def eval_nat_numeral)

theorem coupled_solver_terminates_witness:
  "MissionSegment_init example_fs 4 3 None (Some ''CRM_params.py'')
     (Some (make_aero_surr example_surr))
     (Some (fst (example_MBI 5 3 []))) (Some (snd (example_MBI 5 3 []))) = Inr example_segment \<and>
   max_iteration (coupled_solver example_segment) = 15 \<and>
   iterations (run_coupled_solver (coupled_solver example_segment) abs (\<lambda>x. x / 2) (1::real)) = 15 \<and>
   \<not> converged (run_coupled_solver (coupled_solver example_segment) abs (\<lambda>x. x / 2) (1::real)) \<and>
   res_norm (run_coupled_solver (coupled_solver example_segment) abs (\<lambda>x. x / 2) (1::real)) =
     1 / 2 ^ 15 \<and>
   iterations (run_coupled_solver (coupled_solver example_segment) abs (\<lambda>x. 0) (1::real)) = 1 \<and>
   converged (run_coupled_solver (coupled_solver example_segment) abs (\<lambda>x. 0) (1::real))"
proof -
  note t = coupled_solver_terminates [OF example_init, of abs "\<lambda>x. x / 2" "1::real"]
  have cap: "max_iteration (coupled_solver example_segment) = 15" using t by blast
  have nc: "\<not> converged (run_coupled_solver (coupled_solver example_segment) abs (\<lambda>x. x / 2) (1::real))"
    by (simp add: example_run_halving)
  from t nc have it:
    "iterations (run_coupled_solver (coupled_solver example_segment) abs (\<lambda>x. x / 2) (1::real)) = 15"
    unfolding Let_def by blast
  have rest:
    "res_norm (run_coupled_solver (coupled_solver example_segment) abs (\<lambda>x. x / 2) (1::real)) =
       1 / 2 ^ 15"
    "iterations (run_coupled_solver (coupled_solver example_segment) abs (\<lambda>x. 0) (1::real)) = 1"
    "converged (run_coupled_solver (coupled_solver example_segment) abs (\<lambda>x. 0) (1::real))"
    by (simp_all add: example_run_halving example_run_exact)
  from example_init cap it nc rest show ?thesis by blast
qed

subsection \<open>Fitting the initial altitude control points\<close>

lemma has_shape_ncols: "has_shape A r c \<Longrightarrow> 0 < r \<Longrightarrow> ncols A = c"
  by (cases A) (simp_all add: has_shape_def ncols_def)

lemma has_shape_row: "has_shape A r c \<Longrightarrow> k < r \<Longrightarrow> length (A ! k) = c"
  by (simp add: has_shape_def list_all_length)

lemma col_nth: "col A j = map (\<lambda>k. A ! k ! j) [0..<length A]"
  unfolding col_def by (rule nth_equalityI) simp_all

lemma has_shape_mat_T:
  assumes "has_shape A r c" and "0 < r"
  shows "has_shape (mat_T A) c r"
  using assms by (simp add: mat_T_def has_shape_ncols has_shape_def list_all_iff col_def)

lemma dot_vv_nth:
  "length u = length v \<Longrightarrow> dot_vv u v = (\<Sum>k\<leftarrow>[0..<length u]. u ! k * v ! k)"
proof -
  assume len: "length u = length v"
  have "map2 (*) u v = map (\<lambda>k. u ! k * v ! k) [0..<length u]"
    by (rule nth_equalityI) (simp_all add: len)
  then show ?thesis by (simp add: dot_vv_def)
qed

lemma dot_vv_cols:
  "dot_vv (col A i) (col A j) = (\<Sum>k\<leftarrow>[0..<length A]. A ! k ! i * A ! k ! j)"
proof -
  have "dot_vv (col A i) (col A j) =
          (\<Sum>k\<leftarrow>[0..<length (col A i)]. col A i ! k * col A j ! k)"
    by (rule dot_vv_nth) (simp add: col_def)
  also have "\<dots> = (\<Sum>k\<leftarrow>[0..<length A]. A ! k ! i * A ! k ! j)"
    by (rule arg_cong [where f = sum_list], rule nth_equalityI) (simp_all add: col_def)
  finally show ?thesis .
qed

lemma dot_vv_col_vec:
  assumes "length b = length A"
  shows "dot_vv (col A i) b = (\<Sum>k\<leftarrow>[0..<length A]. A ! k ! i * b ! k)"
proof -
  have "dot_vv (col A i) b = (\<Sum>k\<leftarrow>[0..<length (col A i)]. col A i ! k * b ! k)"
    by (rule dot_vv_nth) (simp add: col_def assms)
  also have "\<dots> = (\<Sum>k\<leftarrow>[0..<length A]. A ! k ! i * b ! k)"
    by (rule arg_cong [where f = sum_list], rule nth_equalityI) (simp_all add: col_def)
  finally show ?thesis .
qed

lemma normal_matrix_computed:
  assumes "has_shape A r c" and "0 < r" and "0 < c"
  shows "dot_mm (mat_T A) A = Inr (normal_matrix A c)"
proof -
  have nc: "ncols A = c" using assms(1,2) by (rule has_shape_ncols)
  have "has_shape (mat_T A) c r" using assms(1,2) by (rule has_shape_mat_T)
  then have ncT: "ncols (mat_T A) = r" using assms(3) by (rule has_shape_ncols)
  have len: "length A = r" using assms(1) by (simp add: has_shape_def)
  have "map (\<lambda>row. map (\<lambda>j. dot_vv row (col A j)) [0..<c]) (mat_T A) = normal_matrix A c"
    by (simp add: mat_T_def nc normal_matrix_def dot_vv_cols)
  then show ?thesis by (simp add: dot_mm_def ncT len nc)
qed

lemma normal_rhs_computed:
  assumes "has_shape A r c" and "0 < r" and "0 < c" and "length b = r"
  shows "dot_mv (mat_T A) b = Inr (normal_rhs A c b)"
proof -
  have nc: "ncols A = c" using assms(1,2) by (rule has_shape_ncols)
  have "has_shape (mat_T A) c r" using assms(1,2) by (rule has_shape_mat_T)
  then have ncT: "ncols (mat_T A) = r" using assms(3) by (rule has_shape_ncols)
  have len: "length b = length A" using assms(1,4) by (simp add: has_shape_def)
  have "map (\<lambda>row. dot_vv row b) (mat_T A) = normal_rhs A c b"
    by (simp add: mat_T_def nc normal_rhs_def dot_vv_col_vec [OF len])
  then show ?thesis by (simp add: dot_mv_def ncT assms(4))
qed

lemma set_init_h_pt_result:
  assumes "jac_h self = Some A" and "has_shape A r c" and "0 < r" and "0 < c"
    and "length b = r"
  shows "set_init_h_pt gmres self b =
           Inr (self\<lparr>port_vals := (port_vals self)
                  (''h_pt'' \<mapsto> fst (gmres (normal_matrix A c) (normal_rhs A c b)))\<rparr>)"
  by (simp add: set_init_h_pt_def assms(1) bind_err_simps Let_def
      normal_matrix_computed [OF assms(2,3,4)] normal_rhs_computed [OF assms(2,3,4,5)])


lemma MissionSegment_init_jac_h:
  assumes "MissionSegment_init fs n_elem n_cp xs pf aero jh jg = Inr seg"
  shows "jac_h seg = jh"
proof -
  from MissionSegment_init_Inr [OF assms] obtain s0 :: "'a segment" where
    "seg = exec_stmts MissionSegment_body s0" "jac_h s0 = jh"
    by (auto simp: segment0_def)
  then show ?thesis by (simp add: body_jac_h)
qed








subsection \<open>Reporting the fuel burn\<close>

lemma report_root_short:
  "length sent < 3 \<Longrightarrow> report_fuelburn True 0 fuelburn sent = Inl IndexError"
  by (simp add: report_fuelburn_def comm_gather_def getitem_list_def bind_err_simps)

lemma report_root_three:
  "3 \<le> length sent \<Longrightarrow>
   report_fuelburn True 0 fuelburn sent =
     Inr [(''seg1 fuel burn'', max3 (leg 0 (sent ! 0)) (leg 0 (sent ! 1)) (leg 0 (sent ! 2))),
          (''seg2 fuel burn'', max3 (leg 1 (sent ! 0)) (leg 1 (sent ! 1)) (leg 1 (sent ! 2))),
          (''seg3 fuel burn'', max3 (leg 2 (sent ! 0)) (leg 2 (sent ! 1)) (leg 2 (sent ! 2)))]"
proof -
  assume "3 \<le> length sent"
  then obtain a b c rest where "sent = a # b # c # rest"
    by (auto simp: numeral_3_eq_3 Suc_le_length_iff)
  then show ?thesis
    by (simp add: report_fuelburn_def comm_gather_def getitem_list_def bind_err_simps)
qed

lemma report_other_rank: "rank \<noteq> 0 \<Longrightarrow> report_fuelburn True rank fuelburn sent = Inr []"
  by (simp add: report_fuelburn_def comm_gather_def)

lemma report_serial:
  "report_fuelburn False rank fuelburn sent =
     Inr [(''seg1 fuel burn'', leg 0 fuelburn),
          (''seg2 fuel burn'', leg 1 fuelburn),
          (''seg3 fuel burn'', leg 2 fuelburn)]"
  by (simp add: report_fuelburn_def)

lemma max3_Max: "max3 (f a) (f b) (f c) = Max (set (map f [a, b, c]))"
  by (simp add: max3_def Max.set_eq_fold)

text \<open>
  Claim C10. On the root process of a distributed run the reduction reads the
  gathered list at the positions 0, 1 and 2 whatever its length: when fewer than
  three copies were gathered it raises \<^verbatim>\<open>IndexError\<close> and reports no fuel burn, and
  when at least three were gathered it reports, for each leg, the maximum of the
  values of the copies 0, 1 and 2.
\<close>

theorem reduction_needs_three_copies:
  "(length sent < 3 \<longrightarrow> report_fuelburn True 0 fuelburn sent = Inl IndexError) \<and>
   (3 \<le> length sent \<longrightarrow>
      report_fuelburn True 0 fuelburn sent =
        Inr [(''seg1 fuel burn'', max3 (leg 0 (sent ! 0)) (leg 0 (sent ! 1)) (leg 0 (sent ! 2))),
             (''seg2 fuel burn'', max3 (leg 1 (sent ! 0)) (leg 1 (sent ! 1)) (leg 1 (sent ! 2))),
             (''seg3 fuel burn'', max3 (leg 2 (sent ! 0)) (leg 2 (sent ! 1)) (leg 2 (sent ! 2)))])"
  using report_root_short [of sent fuelburn] report_root_three [of sent fuelburn] by blast

theorem reduction_needs_three_copies_witness:
  "length [(1, 2, 3), (4, 5, 6) :: fuelburn3] < 3 \<and>
   report_fuelburn True 0 (1, 2, 3) [(1, 2, 3), (4, 5, 6)] = Inl IndexError \<and>
   3 \<le> length [(1, 9, 3), (4, 5, 6), (7, 2, 1) :: fuelburn3] \<and>
   report_fuelburn True 0 (1, 9, 3) [(1, 9, 3), (4, 5, 6), (7, 2, 1)] =
     Inr [(''seg1 fuel burn'', 7), (''seg2 fuel burn'', 9), (''seg3 fuel burn'', 6)]"
proof -
  have a: "length [(1, 2, 3), (4, 5, 6) :: fuelburn3] < 3" by simp
  have b: "3 \<le> length [(1, 9, 3), (4, 5, 6), (7, 2, 1) :: fuelburn3]" by simp
  from reduction_needs_three_copies [of "[(1, 2, 3), (4, 5, 6)]" "(1, 2, 3)"] a
  have c: "report_fuelburn True 0 (1, 2, 3) [(1, 2, 3), (4, 5, 6)] = Inl IndexError"
    by blast
  from reduction_needs_three_copies [of "[(1, 9, 3), (4, 5, 6), (7, 2, 1)]" "(1, 9, 3)"] b
  have d: "report_fuelburn True 0 (1, 9, 3) [(1, 9, 3), (4, 5, 6), (7, 2, 1)] =
     Inr [(''seg1 fuel burn'', 7), (''seg2 fuel burn'', 9), (''seg3 fuel burn'', 6)]"
    by (simp add: max3_def leg_def)
  from a b c d show ?thesis by blast
qed

text \<open>
  Claim C5, as amended. Without MPI the script reports each leg's own
  \<^verbatim>\<open>SysFuelObj.fuelburn\<close>, one value per leg. With MPI the triples of all processes
  are gathered to the root; a process other than the root reports nothing; the
  root, when at least three copies were gathered, reports one value per leg, the
  maximum of the leg's value over the first three copies, which is the maximum
  over all copies when exactly three were gathered.
\<close>

theorem fuelburn_reduction:
  "report_fuelburn False rank fuelburn sent =
     Inr [(''seg1 fuel burn'', leg 0 fuelburn),
          (''seg2 fuel burn'', leg 1 fuelburn),
          (''seg3 fuel burn'', leg 2 fuelburn)] \<and>
   (rank \<noteq> 0 \<longrightarrow> report_fuelburn True rank fuelburn sent = Inr []) \<and>
   (3 \<le> length sent \<longrightarrow>
      report_fuelburn True 0 fuelburn sent =
        Inr [(''seg1 fuel burn'', Max (set (map (leg 0) (take 3 sent)))),
             (''seg2 fuel burn'', Max (set (map (leg 1) (take 3 sent)))),
             (''seg3 fuel burn'', Max (set (map (leg 2) (take 3 sent))))]) \<and>
   (length sent = 3 \<longrightarrow>
      report_fuelburn True 0 fuelburn sent =
        Inr [(''seg1 fuel burn'', Max (set (map (leg 0) sent))),
             (''seg2 fuel burn'', Max (set (map (leg 1) sent))),
             (''seg3 fuel burn'', Max (set (map (leg 2) sent)))])"
proof -
  have three: "report_fuelburn True 0 fuelburn sent =
        Inr [(''seg1 fuel burn'', Max (set (map (leg 0) (take 3 sent)))),
             (''seg2 fuel burn'', Max (set (map (leg 1) (take 3 sent)))),
             (''seg3 fuel burn'', Max (set (map (leg 2) (take 3 sent))))]"
    if len: "3 \<le> length sent"
  proof -
    from len obtain a b c rest where "sent = a # b # c # rest"
      by (auto simp: numeral_3_eq_3 Suc_le_length_iff)
    then have tk: "take 3 sent = [sent ! 0, sent ! 1, sent ! 2]"
      by (simp add: numeral_3_eq_3)
    show ?thesis
      unfolding report_root_three [OF len] tk max3_Max ..
  qed
  have exact: "report_fuelburn True 0 fuelburn sent =
        Inr [(''seg1 fuel burn'', Max (set (map (leg 0) sent))),
             (''seg2 fuel burn'', Max (set (map (leg 1) sent))),
             (''seg3 fuel burn'', Max (set (map (leg 2) sent)))]"
    if len: "length sent = 3"
    using three [of] len by simp
  show ?thesis
    using report_serial [of rank fuelburn sent] report_other_rank [of rank fuelburn sent]
      three exact by blast
qed

theorem fuelburn_reduction_witness:
  "report_fuelburn False 0 (1, 9, 3) [] =
     Inr [(''seg1 fuel burn'', 1), (''seg2 fuel burn'', 9), (''seg3 fuel burn'', 3)] \<and>
   (1::nat) \<noteq> 0 \<and>
   report_fuelburn True 1 (4, 5, 6) [(1, 9, 3), (4, 5, 6), (7, 2, 1)] = Inr [] \<and>
   length [(1, 9, 3), (4, 5, 6), (7, 2, 1) :: fuelburn3] = 3 \<and>
   report_fuelburn True 0 (1, 9, 3) [(1, 9, 3), (4, 5, 6), (7, 2, 1)] =
     Inr [(''seg1 fuel burn'', 7), (''seg2 fuel burn'', 9), (''seg3 fuel burn'', 6)]"
proof -
  have a: "report_fuelburn False 0 (1, 9, 3) [] =
     Inr [(''seg1 fuel burn'', 1), (''seg2 fuel burn'', 9), (''seg3 fuel burn'', 3)]"
    using fuelburn_reduction [of 0 "(1, 9, 3)" "[]"] by (simp add: leg_def)
  have b: "report_fuelburn True 1 (4, 5, 6) [(1, 9, 3), (4, 5, 6), (7, 2, 1)] = Inr []"
    using fuelburn_reduction [of 1 "(4, 5, 6)" "[(1, 9, 3), (4, 5, 6), (7, 2, 1)]"] by simp
  have c: "report_fuelburn True 0 (1, 9, 3) [(1, 9, 3), (4, 5, 6), (7, 2, 1)] =
     Inr [(''seg1 fuel burn'', 7), (''seg2 fuel burn'', 9), (''seg3 fuel burn'', 6)]"
    using fuelburn_reduction [of 0 "(1, 9, 3)" "[(1, 9, 3), (4, 5, 6), (7, 2, 1)]"]
    by (simp add: leg_def)
  from a b c show ?thesis by simp
qed

text \<open>
  With two gathered copies the root raises instead of reporting; with four, the
  fourth copy is ignored, so the value reported for a leg is not the maximum
  over all copies.
\<close>

theorem fuelburn_reduction_counterexample:
  "report_fuelburn True 0 (1, 1, 1) [(1, 1, 1), (1, 1, 1)] = Inl IndexError \<and>
   report_fuelburn True 0 (1, 1, 1) [(1, 1, 1), (1, 1, 1), (1, 1, 1), (5, 5, 5)] =
     Inr [(''seg1 fuel burn'', 1), (''seg2 fuel burn'', 1), (''seg3 fuel burn'', 1)] \<and>
   Max (set (map (leg 0) [(1, 1, 1), (1, 1, 1), (1, 1, 1), (5, 5, 5)])) = 5"
  by (simp add: report_fuelburn_def comm_gather_def getitem_list_def bind_err_simps
      max3_def leg_def)

subsection \<open>The mission: independent segments\<close>

lemma body_conns:
  "conns (exec_stmts MissionSegment_body s) =
     conns s @
      [(''SysHBspline.h'', ''SysSFC.h''),
       (''SysHBspline.h'', ''SysTemp.h''),
       (''SysHBspline.h'', ''SysRho.h''),
       (''SysTemp.temp'', ''SysRho.temp''),
       (''SysTemp.temp'', ''SysSpeed.temp''),
       (''SysMVBspline.M'', ''SysSpeed.M''),
       (''SysMVBspline.v_spline'', ''SysSpeed.v_spline''),
       (''SysRho.rho'', ''SysCLTar.rho''),
       (''SysGammaBspline.Gamma'', ''SysCLTar.Gamma''),
       (''SysSpeed.v'', ''SysCLTar.v''),
       (''SysMVBspline.M'', ''SysTripanCLSurrogate.M''),
       (''SysHBspline.h'', ''SysTripanCLSurrogate.h''),
       (''SysCLTar.CL'', ''SysTripanCLSurrogate.CL_tar''),
       (''SysMVBspline.M'', ''SysTripanCMSurrogate.M''),
       (''SysHBspline.h'', ''SysTripanCMSurrogate.h''),
       (''SysTripanCLSurrogate.alpha'', ''SysTripanCMSurrogate.alpha''),
       (''SysMVBspline.M'', ''SysTripanCDSurrogate.M''),
       (''SysHBspline.h'', ''SysTripanCDSurrogate.h''),
       (''SysTripanCMSurrogate.eta'', ''SysTripanCDSurrogate.eta''),
       (''SysTripanCLSurrogate.alpha'', ''SysTripanCDSurrogate.alpha''),
       (''SysGammaBspline.Gamma'', ''SysCTTar.Gamma''),
       (''SysTripanCDSurrogate.CD'', ''SysCTTar.CD''),
       (''SysTripanCLSurrogate.alpha'', ''SysCTTar.alpha''),
       (''SysRho.rho'', ''SysCTTar.rho''),
       (''SysSpeed.v'', ''SysCTTar.v''),
       (''SysSpeed.v'', ''SysFuelWeight.v''),
       (''SysGammaBspline.Gamma'', ''SysFuelWeight.Gamma''),
       (''SysCTTar.CT_tar'', ''SysFuelWeight.CT_tar''),
       (''SysXBspline.x'', ''SysFuelWeight.x''),
       (''SysSFC.SFC'', ''SysFuelWeight.SFC''),
       (''SysRho.rho'', ''SysFuelWeight.rho''),
       (''SysFuelWeight.fuel_w'', ''SysCLTar.fuel_w''),
       (''SysCTTar.CT_tar'', ''SysCLTar.CT_tar''),
       (''SysTripanCLSurrogate.alpha'', ''SysCLTar.alpha''),
       (''SysTripanCMSurrogate.eta'', ''SysTripanCLSurrogate.eta''),
       (''SysFuelWeight.fuel_w'', ''SysCTTar.fuel_w''),
       (''SysRho.rho'', ''SysTau.rho''),
       (''SysCTTar.CT_tar'', ''SysTau.CT_tar''),
       (''SysHBspline.h'', ''SysTau.h''),
       (''SysSpeed.v'', ''SysTau.v''),
       (''SysTau.tau'', ''SysTmin.tau''),
       (''SysTau.tau'', ''SysTmax.tau''),
       (''SysFuelWeight.fuel_w'', ''SysFuelObj.fuel_w''),
       (''SysXBspline.x'', ''SysBlockTime.x''),
       (''SysSpeed.v'', ''SysBlockTime.v''),
       (''SysGammaBspline.Gamma'', ''SysBlockTime.Gamma''),
       (''h_pt'', ''SysGammaBspline.h_pt''),
       (''pax_flt'', ''SysCLTar.pax_flt''),
       (''pax_flt'', ''SysCTTar.pax_flt'')]"
  by (simp add: exec_stmts_def MissionSegment_body_def)

lemma body_comps:
  "comps (exec_stmts MissionSegment_body s) =
     comps s @
      [(''SysXBspline'', ''SysXBspline''),
       (''SysHBspline'', ''SysHBspline''),
       (''SysMVBspline'', ''SysMVBspline''),
       (''SysGammaBspline'', ''SysGammaBspline''),
       (''SysSFC'', ''SysSFC''),
       (''SysTemp'', ''SysTemp''),
       (''SysRho'', ''SysRho''),
       (''SysSpeed'', ''SysSpeed''),
       (''SysCLTar'', ''SysCLTar''),
       (''SysTripanCLSurrogate'', ''SysTripanCLSurrogate''),
       (''SysTripanCMSurrogate'', ''SysTripanCMSurrogate''),
       (''SysTripanCDSurrogate'', ''SysTripanCDSurrogate''),
       (''SysCTTar'', ''SysCTTar''),
       (''SysFuelWeight'', ''SysFuelWeight''),
       (''coupled_solver'', ''NewtonSolver''),
       (''SysTau'', ''SysTau''),
       (''SysTmin'', ''SysTmin''),
       (''SysTmax'', ''SysTmax''),
       (''SysFuelObj'', ''SysFuelObj''),
       (''SysBlockTime'', ''SysBlockTime'')]"
  by (simp add: exec_stmts_def MissionSegment_body_def)

lemma body_conns_local:
  assumes "conns s = []" and "comps s = []" and "boundary_vars s = []"
  shows "list_all (\<lambda>(src, dst).
           local_endpoint (exec_stmts MissionSegment_body s) src \<and>
           local_endpoint (exec_stmts MissionSegment_body s) dst)
         (conns (exec_stmts MissionSegment_body s))"
  unfolding local_endpoint_def body_conns body_comps body_boundary_vars assms
  by (simp add: comp_name_def)

lemma local_endpoint_cong:
  "comps a = comps b \<Longrightarrow> boundary_vars a = boundary_vars b \<Longrightarrow>
   local_endpoint a = local_endpoint b"
  by (simp add: local_endpoint_def fun_eq_iff)

lemma MissionSegment_init_conns_local:
  assumes "MissionSegment_init fs n_elem n_cp xs pf aero jh jg = Inr seg"
  shows "list_all (\<lambda>(src, dst). local_endpoint seg src \<and> local_endpoint seg dst) (conns seg)"
proof -
  from MissionSegment_init_Inr [OF assms] obtain s0 :: "'a segment" where
    seg: "seg = exec_stmts MissionSegment_body s0" and
    empty: "conns s0 = []" "comps s0 = []" "boundary_vars s0 = []"
    by (auto simp: segment0_def)
  show ?thesis unfolding seg using empty by (rule body_conns_local)
qed

lemma set_init_h_pt_Inr:
  assumes "set_init_h_pt gmres s b = Inr s'"
  shows "\<exists>v. s' = s\<lparr>port_vals := (port_vals s)(''h_pt'' \<mapsto> v)\<rparr>"
  using assms unfolding set_init_h_pt_def bind_err_Inr Let_def by auto

lemma build_segment_Inr:
  assumes "build_segment fs setup_MBI gmres aero x = Inr seg"
  shows "\<exists>xs jh jg seg0.
           MissionSegment_init fs mp_num_elem mp_num_cp xs (Some ''CRM_params.py'') (Some aero)
             jh jg = Inr seg0 \<and>
           conns seg = conns seg0 \<and> comps seg = comps seg0 \<and>
           boundary_vars seg = boundary_vars seg0"
proof -
  from assms obtain xs jh jg seg0 h_init M_init alt seg3 where
    init: "MissionSegment_init fs mp_num_elem mp_num_cp xs (Some ''CRM_params.py'') (Some aero)
             jh jg = Inr seg0" and
    fit: "set_init_h_pt gmres
            (seg0\<lparr>port_vals := (port_vals seg0)(''h_pt'' \<mapsto> h_init)\<rparr>
               \<lparr>port_vals := (port_vals (seg0\<lparr>port_vals := (port_vals seg0)(''h_pt'' \<mapsto> h_init)\<rparr>))
                  (''M_pt'' \<mapsto> M_init)\<rparr>) alt = Inr seg3" and
    seg: "seg = seg3\<lparr>SysSpeed_v_specified := False,
                 S := 427.8 / 10 ^ 2,
                 ac_w := 210000 * 9.81 / 10 ^ 6,
                 thrust_sl := 1020000 / 10 ^ 6,
                 SFCSL := 8.951 * 9.81,
                 AR := 8.68,
                 oswald := 0.8,
                 seg_driver := (seg_driver seg3)\<lparr>system_type := Some ''serial''\<rparr>,
                 coupled_solver := (coupled_solver seg3)\<lparr>system_type := Some ''serial''\<rparr>\<rparr>"
    unfolding build_segment_def bind_err_Inr Let_def by blast
  from set_init_h_pt_Inr [OF fit] obtain v where
    "seg3 = (seg0\<lparr>port_vals := (port_vals seg0)(''h_pt'' \<mapsto> h_init)\<rparr>
               \<lparr>port_vals := (port_vals (seg0\<lparr>port_vals := (port_vals seg0)(''h_pt'' \<mapsto> h_init)\<rparr>))
                  (''M_pt'' \<mapsto> M_init)\<rparr>)
             \<lparr>port_vals := (port_vals (seg0\<lparr>port_vals := (port_vals seg0)(''h_pt'' \<mapsto> h_init)\<rparr>
               \<lparr>port_vals := (port_vals (seg0\<lparr>port_vals := (port_vals seg0)(''h_pt'' \<mapsto> h_init)\<rparr>))
                  (''M_pt'' \<mapsto> M_init)\<rparr>))(''h_pt'' \<mapsto> v)\<rparr>"
    by blast
  then have "conns seg = conns seg0" "comps seg = comps seg0"
    "boundary_vars seg = boundary_vars seg0"
    unfolding seg by simp_all
  with init show ?thesis by blast
qed

lemma build_segment_conns_local:
  assumes "build_segment fs setup_MBI gmres aero x = Inr seg"
  shows "list_all (\<lambda>(src, dst). local_endpoint seg src \<and> local_endpoint seg dst) (conns seg)"
proof -
  from build_segment_Inr [OF assms] obtain xs jh jg seg0 where
    init: "MissionSegment_init fs mp_num_elem mp_num_cp xs (Some ''CRM_params.py'') (Some aero)
             jh jg = Inr seg0" and
    same: "conns seg = conns seg0" "comps seg = comps seg0"
      "boundary_vars seg = boundary_vars seg0"
    by blast
  have "local_endpoint seg = local_endpoint seg0"
    using same(2,3) by (rule local_endpoint_cong)
  with MissionSegment_init_conns_local [OF init] same(1) show ?thesis by simp
qed

lemma multipoint_assemble_Inr:
  assumes "multipoint_assemble fs setup_MBI gmres surr = Inr m"
  shows "\<exists>seg1 seg2 seg3.
           build_segment fs setup_MBI gmres (make_aero_surr surr) 9000 = Inr seg1 \<and>
           build_segment fs setup_MBI gmres (make_aero_surr surr) 7000 = Inr seg2 \<and>
           build_segment fs setup_MBI gmres (make_aero_surr surr) 5000 = Inr seg3 \<and>
           m = \<lparr>segs = [(''seg1'', seg1), (''seg2'', seg2), (''seg3'', seg3)],
                mission_conns = [],
                mission_workflow = [''seg1'', ''seg2'', ''seg3'']\<rparr>"
  using assms unfolding multipoint_assemble_def bind_err_Inr Let_def by blast

lemma run_child_unconnected: "run_child compute [] c st = st(c := compute c (st c))"
  by (simp add: run_child_def transfer_def)

lemma run_children_unconnected:
  "distinct order \<Longrightarrow>
   fold (run_child compute []) order st =
     (\<lambda>c. if c \<in> set order then compute c (st c) else st c)"
proof (induction order arbitrary: st)
  case Nil
  show ?case by simp
next
  case (Cons c cs)
  from Cons.prems have c: "c \<notin> set cs" and d: "distinct cs" by simp_all
  have "fold (run_child compute []) (c # cs) st =
          fold (run_child compute []) cs (st(c := compute c (st c)))"
    by (simp add: run_child_unconnected)
  also have "\<dots> = (\<lambda>d. if d \<in> set cs then compute d ((st(c := compute c (st c))) d)
                        else (st(c := compute c (st c))) d)"
    using d by (rule Cons.IH)
  also have "\<dots> = (\<lambda>d. if d \<in> set (c # cs) then compute d (st d) else st d)"
    using c by (auto simp: fun_eq_iff)
  finally show ?case .
qed

text \<open>
  Claim C6. In the mission the script assembles there is no connection between
  the children of the top assembly, which are the three segments \<^verbatim>\<open>seg1\<close>,
  \<^verbatim>\<open>seg2\<close>, \<^verbatim>\<open>seg3\<close>, and every connection inside a segment joins ports of that
  segment's own components or its own boundary variables. Hence one pass over the
  segments, taken in any order, leaves each segment with the ports it computes
  from its own ports alone, and all orders give the same ports for every
  segment: those each segment computes when run by itself from the initial store.
\<close>

theorem segments_share_no_state:
  assumes "multipoint_assemble fs setup_MBI gmres surr = Inr m"
  shows "mission_conns m = [] \<and>
         map fst (segs m) = [''seg1'', ''seg2'', ''seg3''] \<and>
         mission_workflow m = [''seg1'', ''seg2'', ''seg3''] \<and>
         list_all (\<lambda>(name, seg).
             list_all (\<lambda>(src, dst). local_endpoint seg src \<and> local_endpoint seg dst)
               (conns seg)) (segs m) \<and>
         (\<forall>order. distinct order \<and> set order = set (mission_workflow m) \<longrightarrow>
            run_mission compute m order st =
              (\<lambda>c. if c \<in> set (mission_workflow m) then compute c (st c) else st c))"
proof -
  from multipoint_assemble_Inr [OF assms] obtain seg1 seg2 seg3 where
    b1: "build_segment fs setup_MBI gmres (make_aero_surr surr) 9000 = Inr seg1" and
    b2: "build_segment fs setup_MBI gmres (make_aero_surr surr) 7000 = Inr seg2" and
    b3: "build_segment fs setup_MBI gmres (make_aero_surr surr) 5000 = Inr seg3" and
    m: "m = \<lparr>segs = [(''seg1'', seg1), (''seg2'', seg2), (''seg3'', seg3)],
                mission_conns = [],
                mission_workflow = [''seg1'', ''seg2'', ''seg3'']\<rparr>"
    by blast
  have local: "list_all (\<lambda>(name, seg).
             list_all (\<lambda>(src, dst). local_endpoint seg src \<and> local_endpoint seg dst)
               (conns seg)) (segs m)"
    unfolding m
    using build_segment_conns_local [OF b1] build_segment_conns_local [OF b2]
      build_segment_conns_local [OF b3]
    by simp
  have run: "run_mission compute m order st =
              (\<lambda>c. if c \<in> set (mission_workflow m) then compute c (st c) else st c)"
    if "distinct order" "set order = set (mission_workflow m)" for order
  proof -
    have "run_mission compute m order st = fold (run_child compute []) order st"
      by (simp add: run_mission_def m)
    also have "\<dots> = (\<lambda>c. if c \<in> set order then compute c (st c) else st c)"
      using that(1) by (rule run_children_unconnected)
    finally show ?thesis unfolding that(2) .
  qed
  have "mission_conns m = []" "map fst (segs m) = [''seg1'', ''seg2'', ''seg3'']"
    "mission_workflow m = [''seg1'', ''seg2'', ''seg3'']"
    by (simp_all add: m)
  with local run show ?thesis by blast
qed

lemma linspace_length:
  "0 \<le> n \<Longrightarrow> \<exists>ys. linspace a b n = Inr ys \<and> length ys = nat n"
  by (simp add: linspace_def Let_def)

lemma MissionSegment_init_succeeds:
  assumes "execfile fs pf = Inr data" and "data ''params'' = Some params"
    and "list_all (\<lambda>k. k \<in> dom params) required_keys"
    and "list_all (\<lambda>k. k \<in> dom aero) [''CL'', ''CD'', ''CM'', ''nums'']"
    and "- 1 \<le> n_elem"
  shows "\<exists>seg. MissionSegment_init fs n_elem n_cp xs pf (Some aero) jh jg = Inr seg"
proof -
  from assms(5) have "0 \<le> n_elem + 1" by simp
  from linspace_length [OF this] obtain fw where "linspace 1 0 (n_elem + 1) = Inr fw"
    by blast
  with assms(1-4) show ?thesis
    by (auto simp: MissionSegment_init_def bind_err_simps getitem_def getitem_opt_def
        required_keys_def)
qed

lemma example_build_segment:
  "\<exists>seg. build_segment example_fs example_MBI example_gmres (make_aero_surr example_surr) x
          = Inr seg"
proof -
  from linspace_length [of "mp_num_elem + 1" 0 1] obtain ls where
    ls: "linspace 0 1 (mp_num_elem + 1) = Inr ls" "length ls = 51"
    by (auto simp: mp_num_elem_def)
  from linspace_length [of mp_num_cp 0 1] obtain lc where
    lc: "linspace 0 1 mp_num_cp = Inr lc"
    by (auto simp: mp_num_cp_def)
  define A where "A = replicate 51 (replicate 10 (1::real))"
  have shape: "has_shape A 51 10" by (simp add: A_def has_shape_def list_all_iff)
  have jacs: "fst (example_MBI (mp_num_elem + 1) mp_num_cp xs) = A" for xs
    by (simp add: example_MBI_def mp_num_elem_def mp_num_cp_def A_def)
  have init: "\<exists>seg0. MissionSegment_init example_fs mp_num_elem mp_num_cp (Some xs)
          (Some ''CRM_params.py'') (Some (make_aero_surr example_surr))
          (Some A) jg = Inr seg0" for xs jg
    by (rule MissionSegment_init_succeeds [where data = "[''params'' \<mapsto> example_params]"
          and params = example_params])
      (simp_all add: execfile_def example_fs_def example_params_def required_keys_def
        make_aero_surr_def example_surr_def mp_num_elem_def)
  have fit: "\<exists>seg3. set_init_h_pt example_gmres s b = Inr seg3"
    if "jac_h s = Some A" "length b = 51" for s :: "nat segment" and b
    by (rule exI, rule set_init_h_pt_result [OF that(1) shape]) (simp_all add: that(2))
  have rest: "\<exists>seg. bind_err (set_init_h_pt example_gmres
                 (seg0\<lparr>port_vals := pv\<rparr>\<lparr>port_vals := pv'\<rparr>) b) (\<lambda>seg3. Inr (g seg3)) = Inr seg"
    if "jac_h seg0 = Some A" "length b = 51"
    for seg0 :: "nat segment" and pv pv' b and g :: "nat segment \<Rightarrow> nat segment"
  proof -
    have "jac_h (seg0\<lparr>port_vals := pv\<rparr>\<lparr>port_vals := pv'\<rparr>) = Some A"
      using that(1) by simp
    from fit [OF this that(2)] obtain seg3 where
      "set_init_h_pt example_gmres (seg0\<lparr>port_vals := pv\<rparr>\<lparr>port_vals := pv'\<rparr>) b = Inr seg3"
      by blast
    then show ?thesis by (simp add: bind_err_simps)
  qed
  have alt: "length (map (\<lambda>t. 10 * sin (pi * t)) ls) = 51" by (simp add: ls)
  show ?thesis
    unfolding build_segment_def ls lc bind_err_simps Let_def jacs
  proof -
    let ?xs = "map (\<lambda>t. x * 1.852 * 10 ^ 3 * (1 - cos (t * pi)) / 2 / 10 ^ 6) lc"
    let ?jg = "Some (snd (example_MBI (mp_num_elem + 1) mp_num_cp ?xs))"
    from init [of ?xs ?jg] obtain seg0 where
      seg0: "MissionSegment_init example_fs mp_num_elem mp_num_cp (Some ?xs)
          (Some ''CRM_params.py'') (Some (make_aero_surr example_surr))
          (Some A) ?jg = Inr seg0"
      by blast
    have jac: "jac_h seg0 = Some A" using seg0 by (rule MissionSegment_init_jac_h)
    show "\<exists>seg. bind_err
            (MissionSegment_init example_fs mp_num_elem mp_num_cp (Some ?xs)
               (Some ''CRM_params.py'') (Some (make_aero_surr example_surr)) (Some A) ?jg)
            (\<lambda>seg0.
                bind_err
                 (set_init_h_pt example_gmres
                   (seg0\<lparr>port_vals := (port_vals seg0)
                          (''h_pt'' \<mapsto> map (\<lambda>x'. 10 * sin (pi * x' / (x * 1.852 / 10 ^ 3))) ?xs)\<rparr>
                        \<lparr>port_vals :=
                           (port_vals
                             (seg0\<lparr>port_vals := (port_vals seg0)
                                (''h_pt'' \<mapsto> map (\<lambda>x'. 10 * sin (pi * x' / (x * 1.852 / 10 ^ 3))) ?xs)\<rparr>))
                           (''M_pt'' \<mapsto> map (\<lambda>t. t * 0.82) (replicate (nat mp_num_cp) 1))\<rparr>)
                   (map (\<lambda>t. 10 * sin (pi * t)) ls))
                 (\<lambda>seg3. Inr
                       (seg3\<lparr>SysSpeed_v_specified := False, S := 427.8 / 10 ^ 2,
                               ac_w := 210000 * 9.81 / 10 ^ 6,
                               thrust_sl := 1020000 / 10 ^ 6, SFCSL := 8.951 * 9.81,
                               AR := 8.68, oswald := 0.8,
                               seg_driver := (seg_driver seg3)\<lparr>system_type := Some ''serial''\<rparr>,
                               coupled_solver :=
                                 (coupled_solver seg3)\<lparr>system_type := Some ''serial''\<rparr>\<rparr>))) =
           Inr seg"
      unfolding seg0 bind_err_simps using jac alt by (rule rest)
  qed
qed

lemma example_mission:
  "\<exists>m. multipoint_assemble example_fs example_MBI example_gmres example_surr = Inr m"
proof -
  obtain seg1 seg2 seg3 where
    "build_segment example_fs example_MBI example_gmres (make_aero_surr example_surr) 9000
       = Inr seg1"
    "build_segment example_fs example_MBI example_gmres (make_aero_surr example_surr) 7000
       = Inr seg2"
    "build_segment example_fs example_MBI example_gmres (make_aero_surr example_surr) 5000
       = Inr seg3"
    using example_build_segment by blast
  then show ?thesis by (simp add: multipoint_assemble_def bind_err_simps Let_def)
qed

theorem segments_share_no_state_witness:
  "(case multipoint_assemble example_fs example_MBI example_gmres example_surr of
      Inl e \<Rightarrow> False
    | Inr m \<Rightarrow>
        mission_conns m = [] \<and>
        distinct [''seg3'', ''seg1'', ''seg2''] \<and>
        set [''seg3'', ''seg1'', ''seg2''] = set (mission_workflow m) \<and>
        run_mission (\<lambda>c ports. ports(''fuelburn'' \<mapsto> [real (length c)])) m
          [''seg3'', ''seg1'', ''seg2''] (\<lambda>c. Map.empty) =
        run_mission (\<lambda>c ports. ports(''fuelburn'' \<mapsto> [real (length c)])) m
          [''seg1'', ''seg2'', ''seg3''] (\<lambda>c. Map.empty) \<and>
        run_mission (\<lambda>c ports. ports(''fuelburn'' \<mapsto> [real (length c)])) m
          [''seg3'', ''seg1'', ''seg2''] (\<lambda>c. Map.empty) ''seg2'' ''fuelburn'' = Some [4])"
proof -
  from example_mission obtain m where
    m: "multipoint_assemble example_fs example_MBI example_gmres example_surr = Inr m"
    by blast
  note t = segments_share_no_state [OF m,
      of "\<lambda>c ports. ports(''fuelburn'' \<mapsto> [real (length c)])" "\<lambda>c. Map.empty"]
  have wf: "mission_workflow m = [''seg1'', ''seg2'', ''seg3'']" using t by blast
  have d1: "distinct [''seg3'', ''seg1'', ''seg2'']" by simp
  have s1: "set [''seg3'', ''seg1'', ''seg2''] = set (mission_workflow m)"
    unfolding wf by auto
  have d2: "distinct [''seg1'', ''seg2'', ''seg3'']" by simp
  have s2: "set [''seg1'', ''seg2'', ''seg3''] = set (mission_workflow m)"
    unfolding wf by simp
  from t d1 s1 have r1:
    "run_mission (\<lambda>c ports. ports(''fuelburn'' \<mapsto> [real (length c)])) m
       [''seg3'', ''seg1'', ''seg2''] (\<lambda>c. Map.empty) =
     (\<lambda>c. if c \<in> set (mission_workflow m)
           then (Map.empty :: string \<rightharpoonup> real list)(''fuelburn'' \<mapsto> [real (length c)])
           else Map.empty)"
    by blast
  from t d2 s2 have r2:
    "run_mission (\<lambda>c ports. ports(''fuelburn'' \<mapsto> [real (length c)])) m
       [''seg1'', ''seg2'', ''seg3''] (\<lambda>c. Map.empty) =
     (\<lambda>c. if c \<in> set (mission_workflow m)
           then (Map.empty :: string \<rightharpoonup> real list)(''fuelburn'' \<mapsto> [real (length c)])
           else Map.empty)"
    by blast
  have conn: "mission_conns m = []" using t by blast
  have val: "run_mission (\<lambda>c ports. ports(''fuelburn'' \<mapsto> [real (length c)])) m
          [''seg3'', ''seg1'', ''seg2''] (\<lambda>c. Map.empty) ''seg2'' ''fuelburn'' = Some [4]"
    unfolding r1 wf by simp
  show ?thesis
    unfolding m using conn d1 s1 r1 r2 val by simp
qed

end
